theory Spec2Isabelle
  imports Main "HOL-Library.Word"
begin

unbundle bit_operations_syntax

section \<open>Basic types\<close>

text \<open>
  Go's \<open>byte\<close> is an 8-bit word, \<open>[]byte\<close> a list of them. A Go \<open>string\<close> is a
  sequence of bytes too; it is modelled as an Isabelle \<open>string\<close>, whose characters are
  8-bit values, so that \<open>len(s)\<close> is \<open>length s\<close>. Go's \<open>uint\<close> and \<open>int64\<close> are
  64-bit words (the width of \<open>uint\<close> on 64-bit platforms). Lengths and byte counts
  (Go \<open>int\<close>) are natural numbers: they are sums of slice lengths and never negative.
\<close>

type_synonym byte = "8 word"
type_synonym uint = "64 word"
type_synonym int64 = "64 word"

definition bytesOf :: "string \<Rightarrow> byte list" where
  "bytesOf s = map (\<lambda>c. word_of_nat (of_char c)) s"

definition stringOf :: "byte list \<Rightarrow> string" where
  "stringOf bs = map (\<lambda>b. char_of (unat b)) bs"

text \<open>
  The error values of the package, the two errors of the standard library that the
  code tests for, the wrapping done by \<open>fmt.Errorf("...: %w", err)\<close> in \<open>Tag.parse\<close>,
  the errors of the text-encoding library, and run-time panics (\<open>Panic e\<close> is
  \<open>panic(e)\<close>).
\<close>

datatype error =
    ErrInvalidSizeFormat
  | ErrSizeOverflow
  | ErrSmallHeaderSize
  | ErrNoTag
  | ErrUnsupportedVersion
  | ErrBodyOverflow
  | ErrBlankFrame
  | ErrInvalidLanguageLength
  | ErrNoFile
  | EOF
  | ErrRdIsNil
  | ErrWIsNil
  | ErrParsingTagHeader error
  | ErrRepertoire
  | ErrInvalidUTF8
  | ErrMissingBOM
  | PanicIndexOutOfRange
  | PanicNilDereference
  | Panic error

text \<open>\<open>errors.Is\<close>: the error itself or anything it wraps.\<close>

fun errorsIs :: "error \<Rightarrow> error \<Rightarrow> bool" where
  "errorsIs (ErrParsingTagHeader e) target =
     (ErrParsingTagHeader e = target \<or> errorsIs e target)"
| "errorsIs e target = (e = target)"

section \<open>Text encodings (encoding.go)\<close>

record Encoding =
  Name :: string
  Key :: byte
  TerminationBytes :: "byte list"

definition Equals :: "Encoding \<Rightarrow> Encoding \<Rightarrow> bool" where
  "Equals e other = (Key e = Key other)"

definition EncodingISO :: Encoding where
  "EncodingISO = \<lparr>Name = ''ISO-8859-1'', Key = 0, TerminationBytes = [0]\<rparr>"

definition EncodingUTF16 :: Encoding where
  "EncodingUTF16 =
     \<lparr>Name = ''UTF-16 encoded Unicode with BOM'', Key = 1, TerminationBytes = [0, 0]\<rparr>"

definition EncodingUTF16BE :: Encoding where
  "EncodingUTF16BE =
     \<lparr>Name = ''UTF-16BE encoded Unicode without BOM'', Key = 2, TerminationBytes = [0, 0]\<rparr>"

definition EncodingUTF8 :: Encoding where
  "EncodingUTF8 = \<lparr>Name = ''UTF-8 encoded Unicode'', Key = 3, TerminationBytes = [0]\<rparr>"

definition encodings :: "Encoding list" where
  "encodings = [EncodingISO, EncodingUTF16, EncodingUTF16BE, EncodingUTF8]"

text \<open>Indexing a slice panics when the index is out of range.\<close>

definition index :: "'a list \<Rightarrow> nat \<Rightarrow> error + 'a" where
  "index xs i = (if i < length xs then Inr (xs ! i) else Inl PanicIndexOutOfRange)"

definition getEncoding :: "byte \<Rightarrow> error + Encoding" where
  "getEncoding key = (if key > 3 then Inr EncodingUTF8 else index encodings (unat key))"

section \<open>Frame routing (common\_ids.go)\<close>

definition UserDefinedTextFrameID :: string where
  "UserDefinedTextFrameID = ''TXXX''"

definition HasPrefix :: "string \<Rightarrow> string \<Rightarrow> bool" where
  "HasPrefix s p = (take (length p) s = p)"

text \<open>
  The \<open>switch\<close> of \<open>mustFrameBeInSequence\<close>: Go has no implicit fall-through, so the
  first \<open>case\<close>, whose body is empty, leaves the switch without returning; only the
  second \<open>case\<close> returns. \<open>None\<close> is "no return inside the switch".
\<close>

definition sequenceSwitch :: "string \<Rightarrow> bool option" where
  "sequenceSwitch fid =
     (if fid \<in> set [''MCDI'', ''ETCO'', ''SYTC'', ''RVRB'', ''MLLT'', ''PCNT'', ''RBUF'',
                    ''POSS'', ''OWNE'', ''SEEK'', ''ASPI'']
      then None
      else if fid \<in> set [''IPLS'', ''RVAD''] then Some False
      else None)"

definition mustFrameBeInSequence :: "string \<Rightarrow> bool" where
  "mustFrameBeInSequence fid =
     (if fid \<noteq> UserDefinedTextFrameID \<and> HasPrefix fid ''T'' then False
      else case sequenceSwitch fid of Some r \<Rightarrow> r | None \<Rightarrow> True)"

section \<open>Sequences (sequence.go)\<close>

text \<open>
  \<open>Framer\<close> is an interface; the sequence code only calls its \<open>UniqueIdentifier\<close>
  method, which is the parameter \<open>uid\<close> here. A sequence is its slice of frames.
  \<open>indexOfFrame\<close> returns \<open>-1\<close> when no frame has the key.
\<close>

fun indexOfFrameFrom :: "('f \<Rightarrow> string) \<Rightarrow> 'f \<Rightarrow> 'f list \<Rightarrow> int \<Rightarrow> int" where
  "indexOfFrameFrom uid f [] i = -1"
| "indexOfFrameFrom uid f (ff # fs) i =
     (if uid f = uid ff then i else indexOfFrameFrom uid f fs (i + 1))"

definition indexOfFrame :: "('f \<Rightarrow> string) \<Rightarrow> 'f \<Rightarrow> 'f list \<Rightarrow> int" where
  "indexOfFrame uid f fs = indexOfFrameFrom uid f fs 0"

definition seqAddFrame :: "('f \<Rightarrow> string) \<Rightarrow> 'f list \<Rightarrow> 'f \<Rightarrow> 'f list" where
  "seqAddFrame uid s f =
     (let i = indexOfFrame uid f s
      in if i = -1 then s @ [f] else s[nat i := f])"

definition seqCount :: "'f list \<Rightarrow> nat" where
  "seqCount s = length s"

definition getSequence :: "'f list" where
  "getSequence = []"

section \<open>The tag aggregate (tag.go)\<close>

text \<open>
  The reader of a tag is a byte source; \<open>None\<close> is the \<open>nil\<close> reader. The source is
  a list of the bytes still to be read, with the \<open>Read\<close> of \<open>bytes.Reader\<close> and of a
  regular file: it fills the buffer as far as the bytes last and returns \<open>io.EOF\<close>
  only when none are left.
\<close>

type_synonym reader = "byte list"

record 'f Tag =
  frames :: "string \<rightharpoonup> 'f"
  sequences :: "string \<rightharpoonup> 'f list"
  defaultEncoding :: Encoding
  reader :: "reader option"
  originalSize :: int64
  version :: byte

text \<open>\<open>Tag.AddFrame\<close>; a \<open>nil\<close> frame is \<open>None\<close>.\<close>

definition AddFrame :: "('f \<Rightarrow> string) \<Rightarrow> 'f Tag \<Rightarrow> string \<Rightarrow> 'f option \<Rightarrow> 'f Tag" where
  "AddFrame uid tag fid fo =
     (case fo of
        None \<Rightarrow> tag
      | Some f \<Rightarrow>
          if fid = [] then tag
          else if mustFrameBeInSequence fid then
            (let sequence = (case sequences tag fid of None \<Rightarrow> getSequence | Some s \<Rightarrow> s)
             in tag\<lparr>sequences := (sequences tag)(fid \<mapsto> seqAddFrame uid sequence f)\<rparr>)
          else tag\<lparr>frames := (frames tag)(fid \<mapsto> f)\<rparr>)"

text \<open>\<open>DeleteAllFrames\<close>, \<open>init\<close> and \<open>NewEmptyTag\<close>; \<open>new(Tag)\<close> is the zero value.\<close>

definition DeleteAllFrames :: "'f Tag \<Rightarrow> 'f Tag" where
  "DeleteAllFrames tag = tag\<lparr>frames := Map.empty, sequences := Map.empty\<rparr>"

definition SetDefaultEncoding :: "'f Tag \<Rightarrow> Encoding \<Rightarrow> 'f Tag" where
  "SetDefaultEncoding tag encoding = tag\<lparr>defaultEncoding := encoding\<rparr>"

definition setDefaultEncodingBasedOnVersion :: "'f Tag \<Rightarrow> byte \<Rightarrow> 'f Tag" where
  "setDefaultEncodingBasedOnVersion tag v =
     (if v = 4 then SetDefaultEncoding tag EncodingUTF8 else SetDefaultEncoding tag EncodingISO)"

definition init :: "'f Tag \<Rightarrow> reader option \<Rightarrow> int64 \<Rightarrow> byte \<Rightarrow> 'f Tag" where
  "init tag rd sz v =
     setDefaultEncodingBasedOnVersion
       ((DeleteAllFrames tag)\<lparr>reader := rd, originalSize := sz, version := v\<rparr>) v"

definition newTag :: "'f Tag" where
  "newTag = \<lparr>frames = Map.empty, sequences = Map.empty,
             defaultEncoding = \<lparr>Name = [], Key = 0, TerminationBytes = []\<rparr>,
             reader = None, originalSize = 0, version = 0\<rparr>"

definition NewEmptyTag :: "'f Tag" where
  "NewEmptyTag = init newTag None 0 4"

definition Count :: "'f Tag \<Rightarrow> nat" where
  "Count tag = card (dom (frames tag)) + (\<Sum>fid \<in> dom (sequences tag). seqCount (the (sequences tag fid)))"

section \<open>The buffered writer (buffered\_writer.go)\<close>

text \<open>
  \<open>bufferedWriter\<close> wraps a \<open>bufio.Writer\<close>. The writer underneath is error-free (a
  \<open>bytes.Buffer\<close>, \<open>io.Discard\<close>): every byte handed to the \<open>bufio.Writer\<close> is accepted
  and reaches the sink in order, and \<open>Flush\<close> has nothing to report. \<open>sink\<close> is the
  sequence of bytes accepted so far; \<open>err\<close> and \<open>written\<close> are the fields of the
  source. Each method returns the writer after the call.
\<close>

record bufferedWriter =
  err :: "error option"
  sink :: "byte list"
  written :: nat

definition newBufferedWriter :: bufferedWriter where
  "newBufferedWriter = \<lparr>err = None, sink = [], written = 0\<rparr>"

definition WriteByte :: "bufferedWriter \<Rightarrow> byte \<Rightarrow> bufferedWriter" where
  "WriteByte bw c =
     (if err bw \<noteq> None then bw
      else bw\<lparr>sink := sink bw @ [c], written := written bw + 1\<rparr>)"

definition WriteString :: "bufferedWriter \<Rightarrow> string \<Rightarrow> bufferedWriter" where
  "WriteString bw s =
     (if err bw \<noteq> None then bw
      else bw\<lparr>sink := sink bw @ bytesOf s, written := written bw + length s\<rparr>)"

text \<open>\<open>Write\<close> returns the count \<open>n\<close>, the error, and the writer after the call.\<close>

definition Write :: "bufferedWriter \<Rightarrow> byte list \<Rightarrow> nat \<times> error option \<times> bufferedWriter" where
  "Write bw p =
     (if err bw \<noteq> None then (0, err bw, bw)
      else (length p, None, bw\<lparr>sink := sink bw @ p, written := written bw + length p\<rparr>))"

definition Flush :: "bufferedWriter \<Rightarrow> error option" where
  "Flush bw = (if err bw \<noteq> None then err bw else None)"

definition Written :: "bufferedWriter \<Rightarrow> nat" where
  "Written bw = written bw"

section \<open>The size codec (size.go)\<close>

definition id3SizeLen :: nat where
  "id3SizeLen = 4"

definition synchSafeMaxSize :: uint where
  "synchSafeMaxSize = 268435455"

definition synchSafeSizeBase :: nat where
  "synchSafeSizeBase = 7"

definition synchSafeMask :: uint where
  "synchSafeMask = push_bit (3 * 8) 254"

definition synchUnsafeMaxSize :: uint where
  "synchUnsafeMaxSize = 4294967295"

definition synchUnsafeSizeBase :: nat where
  "synchUnsafeSizeBase = 8"

definition synchUnsafeMask :: uint where
  "synchUnsafeMask = push_bit (3 * 8) 255"

text \<open>
  \<open>parseSize\<close>: the loop over the bytes of \<open>data\<close>, with the size accumulated so far.
  \<open>int64(b)\<close> extends the byte with zeros.
\<close>

fun parseSizeLoop :: "bool \<Rightarrow> nat \<Rightarrow> int64 \<Rightarrow> byte list \<Rightarrow> error + int64" where
  "parseSizeLoop synchSafe sizeBase sz [] = Inr sz"
| "parseSizeLoop synchSafe sizeBase sz (b # data) =
     (if synchSafe \<and> b AND 128 > 0 then Inl ErrInvalidSizeFormat
      else parseSizeLoop synchSafe sizeBase (push_bit sizeBase sz OR ucast b) data)"

definition parseSize :: "byte list \<Rightarrow> bool \<Rightarrow> error + int64" where
  "parseSize data synchSafe =
     (if length data > id3SizeLen then Inl ErrInvalidSizeFormat
      else parseSizeLoop synchSafe
             (if synchSafe then synchSafeSizeBase else synchUnsafeSizeBase) 0 data)"


text \<open>
  The two writers: \<open>for range id3SizeLen\<close> runs the body four times; the first argument
  of the loop functions counts the iterations left. \<open>byte(firstBits)\<close> keeps the low 8
  bits.
\<close>

fun synchSafeLoop :: "nat \<Rightarrow> bufferedWriter \<Rightarrow> uint \<Rightarrow> bufferedWriter" where
  "synchSafeLoop 0 bw sz = bw"
| "synchSafeLoop (Suc n) bw sz =
     (let firstBits = sz AND synchSafeMask;
          firstBits = drop_bit (3 * 8 + 1) firstBits;
          bSize = (ucast firstBits :: byte);
          bw = WriteByte bw bSize;
          sz = push_bit synchSafeSizeBase sz
      in synchSafeLoop n bw sz)"

definition writeSynchSafeBytesSize :: "bufferedWriter \<Rightarrow> uint \<Rightarrow> error option \<times> bufferedWriter" where
  "writeSynchSafeBytesSize bw sz =
     (if sz > synchSafeMaxSize then (Some ErrSizeOverflow, bw)
      else (None, synchSafeLoop id3SizeLen bw (push_bit 4 sz)))"

fun synchUnsafeLoop :: "nat \<Rightarrow> bufferedWriter \<Rightarrow> uint \<Rightarrow> bufferedWriter" where
  "synchUnsafeLoop 0 bw sz = bw"
| "synchUnsafeLoop (Suc n) bw sz =
     (let firstBits = sz AND synchUnsafeMask;
          firstBits = drop_bit (3 * 8) firstBits;
          bw = WriteByte bw (ucast firstBits);
          sz = push_bit synchUnsafeSizeBase sz
      in synchUnsafeLoop n bw sz)"

definition writeSynchUnsafeBytesSize :: "bufferedWriter \<Rightarrow> uint \<Rightarrow> error option \<times> bufferedWriter" where
  "writeSynchUnsafeBytesSize bw sz =
     (if sz > synchUnsafeMaxSize then (Some ErrSizeOverflow, bw)
      else (None, synchUnsafeLoop id3SizeLen bw sz))"

definition writeBytesSize :: "bufferedWriter \<Rightarrow> uint \<Rightarrow> bool \<Rightarrow> error option \<times> bufferedWriter" where
  "writeBytesSize bw sz synchSafe =
     (if synchSafe then writeSynchSafeBytesSize bw sz else writeSynchUnsafeBytesSize bw sz)"

text \<open>The method \<open>bufferedWriter.WriteBytesSize\<close> records the error in the writer.\<close>

definition WriteBytesSize :: "bufferedWriter \<Rightarrow> uint \<Rightarrow> bool \<Rightarrow> bufferedWriter" where
  "WriteBytesSize bw sz synchSafe =
     (if err bw \<noteq> None then bw
      else case writeBytesSize bw sz synchSafe of (e, bw') \<Rightarrow> bw'\<lparr>err := e\<rparr>)"

section \<open>The tag header and \<open>Tag.parse\<close> (header.go, parse.go)\<close>

text \<open>
  \<open>Read\<close> on the byte source with a buffer of \<open>n\<close> bytes: the bytes copied into the
  buffer, the error, and the source afterwards.
\<close>

definition Read :: "reader \<Rightarrow> nat \<Rightarrow> byte list \<times> error option \<times> reader" where
  "Read rd n =
     (if rd = [] then ([], Some EOF, rd)
      else (take n rd, None, drop n rd))"

definition tagHeaderSize :: nat where
  "tagHeaderSize = 10"

definition id3Identifier :: "byte list" where
  "id3Identifier = bytesOf ''ID3''"

record tagHeader =
  FramesSize :: int64
  Version :: byte

definition isID3Tag :: "byte list \<Rightarrow> bool" where
  "isID3Tag data = (length data = length id3Identifier \<and> data = id3Identifier)"

text \<open>
  \<open>parseHeader\<close> returns the header as far as it was filled, the error and the source
  after the read. \<open>data\<close> is the 10-byte buffer, zero beyond the bytes read.
\<close>

definition parseHeader :: "reader \<Rightarrow> tagHeader \<times> error option \<times> reader" where
  "parseHeader rd =
     (let header = \<lparr>FramesSize = 0, Version = 0\<rparr>;
          (p, e, rd') = Read rd tagHeaderSize;
          data = p @ replicate (tagHeaderSize - length p) 0;
          n = length p
      in if e \<noteq> None then (header, e, rd')
         else if n < tagHeaderSize then (header, Some ErrSmallHeaderSize, rd')
         else if \<not> isID3Tag (take 3 data) then (header, Some ErrNoTag, rd')
         else let header = header\<lparr>Version := data ! 3\<rparr>
              in case parseSize (drop 6 data) True of
                   Inl e' \<Rightarrow> (header, Some e', rd')
                 | Inr sz \<Rightarrow> (header\<lparr>FramesSize := sz\<rparr>, None, rd'))"

record Options =
  Parse :: bool
  ParseFrames :: "string list"

text \<open>
  \<open>Tag.parse\<close> either returns (an error or \<open>nil\<close>, and the tag as it leaves it) or ends
  in the call \<open>tag.parseFrames(opts)\<close>, whose result it returns; that tail call is the
  outcome \<open>ToParseFrames\<close>, with the tag it is made on.
\<close>

datatype 'f outcome = Return "error option" "'f Tag" | ToParseFrames "'f Tag" Options

definition parse :: "'f Tag \<Rightarrow> reader option \<Rightarrow> Options \<Rightarrow> 'f outcome" where
  "parse tag rd opts =
     (case rd of
        None \<Rightarrow> Return (Some ErrRdIsNil) tag
      | Some r \<Rightarrow>
          (case parseHeader r of (header, e, r') \<Rightarrow>
             if (case e of None \<Rightarrow> False | Some x \<Rightarrow> errorsIs x ErrNoTag \<or> errorsIs x EOF)
             then Return None (init tag (Some r') 0 4)
             else case e of
                 Some x \<Rightarrow> Return (Some (ErrParsingTagHeader x)) tag
               | None \<Rightarrow>
                   if Version header < 3 then Return (Some ErrUnsupportedVersion) tag
                   else let tag = init tag (Some r') (word_of_nat tagHeaderSize + FramesSize header)
                                    (Version header)
                        in if \<not> Parse opts then Return None tag
                           else ToParseFrames tag opts))"

section \<open>The text-encoding library (golang.org/x/text, unicode/utf8, unicode/utf16)\<close>

text \<open>
  The encoders and decoders of the library the package calls, on byte values as
  natural numbers. \<open>DecodeRune\<close> is \<open>utf8.DecodeRune\<close>: the first rune of the input and
  its width in bytes, \<open>(RuneError, 1)\<close> for an invalid or truncated encoding.
\<close>

definition RuneError :: nat where
  "RuneError = 0xFFFD"

fun DecodeRune :: "nat list \<Rightarrow> nat \<times> nat" where
  "DecodeRune [] = (RuneError, 0)"
| "DecodeRune (b0 # rest) =
     (if b0 < 0x80 then (b0, 1)
      else if b0 < 0xC2 \<or> 0xF4 < b0 then (RuneError, 1)
      else
        let sz = (if b0 < 0xE0 then 2 else if b0 < 0xF0 then 3 else 4) :: nat;
            lo = (if b0 = 0xE0 then 0xA0 else if b0 = 0xF0 then 0x90 else 0x80) :: nat;
            hi = (if b0 = 0xED then 0x9F else if b0 = 0xF4 then 0x8F else 0xBF) :: nat
        in if length rest < sz - 1 then (RuneError, 1)
           else let b1 = rest ! 0
             in if b1 < lo \<or> hi < b1 then (RuneError, 1)
                else if sz \<le> 2 then ((b0 mod 32) * 64 + b1 mod 64, 2)
                else let b2 = rest ! 1
                  in if b2 < 0x80 \<or> 0xBF < b2 then (RuneError, 1)
                     else if sz \<le> 3
                     then ((b0 mod 16) * 4096 + (b1 mod 64) * 64 + b2 mod 64, 3)
                     else let b3 = rest ! 2
                       in if b3 < 0x80 \<or> 0xBF < b3 then (RuneError, 1)
                          else ((b0 mod 8) * 262144 + (b1 mod 64) * 4096 +
                                (b2 mod 64) * 64 + b3 mod 64, 4))"

text \<open>\<open>utf8.EncodeRune\<close>: surrogates and values beyond U+10FFFF are written as U+FFFD.\<close>

definition EncodeRune :: "nat \<Rightarrow> nat list" where
  "EncodeRune r =
     (if r \<le> 0x7F then [r]
      else if r \<le> 0x7FF then [0xC0 + r div 64, 0x80 + r mod 64]
      else if 0x10FFFF < r \<or> (0xD800 \<le> r \<and> r \<le> 0xDFFF) then [0xEF, 0xBF, 0xBD]
      else if r \<le> 0xFFFF
      then [0xE0 + r div 4096, 0x80 + (r div 64) mod 64, 0x80 + r mod 64]
      else [0xF0 + r div 262144, 0x80 + (r div 4096) mod 64, 0x80 + (r div 64) mod 64,
            0x80 + r mod 64])"

text \<open>
  The UTF-16 encoder (\<open>utf16Encoder.Transform\<close>) without the byte-order mark: two bytes,
  high byte first, for a rune up to U+FFFF, a surrogate pair above; an invalid byte of
  the input is encoded as U+FFFD.
\<close>

function utf16Units :: "nat list \<Rightarrow> nat list" where
  "utf16Units [] = []"
| "utf16Units (b # src) =
     (let (r, sz) = (if b < 0x80 then (b, 1) else DecodeRune (b # src));
          unit = (if r \<le> 0xFFFF then [r div 256, r mod 256]
                  else let r1 = 0xD800 + ((r - 0x10000) div 1024) mod 1024;
                           r2 = 0xDC00 + (r - 0x10000) mod 1024
                       in [r1 div 256, r1 mod 256, r2 div 256, r2 mod 256])
      in unit @ utf16Units (drop sz (b # src)))"
  by pat_completeness auto

termination utf16Units
  by (relation "measure length") (auto simp: Let_def split: if_splits)

text \<open>
  The ISO 8859-1 encoder (\<open>charmapEncoder.Transform\<close>): a rune up to U+00FF becomes the
  byte of the same value; any other rune, and invalid UTF-8, is a repertoire error.
\<close>

function isoEncode :: "nat list \<Rightarrow> error + nat list" where
  "isoEncode [] = Inr []"
| "isoEncode (b # src) =
     (if b < 0x80 then (case isoEncode src of Inl e \<Rightarrow> Inl e | Inr bs \<Rightarrow> Inr (b # bs))
      else let (r, sz) = DecodeRune (b # src)
        in if sz = 1 then Inl ErrRepertoire
           else if r < 0x100
           then (case isoEncode (drop sz (b # src)) of
                   Inl e \<Rightarrow> Inl e
                 | Inr bs \<Rightarrow> Inr (r # bs))
           else Inl ErrRepertoire)"
  by pat_completeness auto
termination isoEncode
  by (relation "measure length") (auto simp: Let_def split: if_splits)

text \<open>The UTF-8 encoder is \<open>encoding.UTF8Validator\<close>: the input itself if it is valid UTF-8.\<close>

function utf8Valid :: "nat list \<Rightarrow> bool" where
  "utf8Valid [] = True"
| "utf8Valid (b # src) =
     (if b < 0x80 then utf8Valid src
      else let (r, sz) = DecodeRune (b # src)
        in if sz = 1 then False else utf8Valid (drop sz (b # src)))"
  by pat_completeness auto
termination utf8Valid
  by (relation "measure length") (auto simp: Let_def split: if_splits)

text \<open>The ISO 8859-1 decoder: each byte is the rune of the same value, written in UTF-8.\<close>

definition isoDecode :: "nat list \<Rightarrow> nat list" where
  "isoDecode src = concat (map EncodeRune src)"

text \<open>
  The UTF-16 decoder after the byte-order mark (\<open>utf16Decoder.Transform\<close> at the end of
  input), for little-endian input when \<open>le\<close> holds: a surrogate followed by a unit in
  \<open>DC00..DFFF\<close> is decoded as a pair, a rune with no UTF-8 form and a single trailing
  byte become U+FFFD.
\<close>

definition unit16 :: "bool \<Rightarrow> nat \<Rightarrow> nat \<Rightarrow> nat" where
  "unit16 le b0 b1 = (if le then b1 * 256 + b0 else b0 * 256 + b1)"

definition utf16DecodeRune :: "nat \<Rightarrow> nat \<Rightarrow> nat" where
  "utf16DecodeRune r1 r2 =
     (if 0xD800 \<le> r1 \<and> r1 < 0xDC00 \<and> 0xDC00 \<le> r2 \<and> r2 < 0xE000
      then (r1 - 0xD800) * 1024 + (r2 - 0xDC00) + 0x10000
      else RuneError)"

fun utf16Runes :: "bool \<Rightarrow> nat list \<Rightarrow> nat list" where
  "utf16Runes le [] = []"
| "utf16Runes le [b] = [RuneError]"
| "utf16Runes le (b0 # b1 # b2 # b3 # src) =
     (let r = unit16 le b0 b1; x = unit16 le b2 b3
      in if 0xD800 \<le> r \<and> r < 0xE000 \<and> 0xDC00 \<le> x \<and> x \<le> 0xDFFF
         then utf16DecodeRune r x # utf16Runes le src
         else r # utf16Runes le (b2 # b3 # src))"
| "utf16Runes le (b0 # b1 # src) = unit16 le b0 b1 # utf16Runes le src"

text \<open>
  \<open>accept\<close> and \<open>require\<close> are the two bits of the BOM policy the decoder reads
  (\<open>ExpectBOM\<close> sets both, \<open>IgnoreBOM\<close> neither); a mark that is accepted chooses the
  byte order.
\<close>

definition utf16Decode :: "bool \<Rightarrow> bool \<Rightarrow> bool \<Rightarrow> nat list \<Rightarrow> error + nat list" where
  "utf16Decode le accept require src =
     (if length src < 2 \<and> require then Inl ErrMissingBOM
      else if src = [] then Inr []
      else if 2 \<le> length src \<and> accept then
        (if take 2 src = [0xFE, 0xFF] then Inr (concat (map EncodeRune (utf16Runes False (drop 2 src))))
         else if take 2 src = [0xFF, 0xFE] then Inr (concat (map EncodeRune (utf16Runes True (drop 2 src))))
         else if require then Inl ErrMissingBOM
         else Inr (concat (map EncodeRune (utf16Runes le src))))
      else Inr (concat (map EncodeRune (utf16Runes le src))))"

text \<open>
  The UTF-8 decoder (\<open>utf8Decoder.Transform\<close>) copies valid runes and replaces every
  maximal ill-formed sequence by U+FFFD.
\<close>

definition illFormedWidth :: "nat list \<Rightarrow> nat" where
  "illFormedWidth src =
     (let b0 = src ! 0;
          lo = (if b0 = 0xE0 then 0xA0 else if b0 = 0xF0 then 0x90 else 0x80) :: nat;
          hi = (if b0 = 0xED then 0x9F else if b0 = 0xF4 then 0x8F else 0xBF) :: nat
      in if b0 < 0xC2 \<or> 0xF4 < b0 then 1
         else if length src < 2 \<or> src ! 1 < lo \<or> hi < src ! 1 then 1
         else if length src < 3 \<or> src ! 2 < 0x80 \<or> 0xBF < src ! 2 then 2
         else 3)"

function utf8Decode :: "nat list \<Rightarrow> nat list" where
  "utf8Decode [] = []"
| "utf8Decode (b # src) =
     (if b < 0x80 then b # utf8Decode src
      else let (r, sz) = DecodeRune (b # src)
        in if sz = 1
           then [0xEF, 0xBF, 0xBD] @ utf8Decode (drop (illFormedWidth (b # src)) (b # src))
           else take sz (b # src) @ utf8Decode (drop sz (b # src)))"
  by pat_completeness auto
termination utf8Decode
  by (relation "measure length") (auto simp: Let_def illFormedWidth_def split: if_splits)

text \<open>The five encoding objects of the library that the package holds.\<close>

datatype XEncoding =
    xEncodingISO
  | xEncodingUTF16BEBOM
  | xEncodingUTF16LEBOM
  | xEncodingUTF16BE
  | xEncodingUTF8

definition natsOf :: "string \<Rightarrow> nat list" where
  "natsOf s = map of_char s"

definition ofNats :: "nat list \<Rightarrow> string" where
  "ofNats ns = map char_of ns"

definition swapPairs :: "nat list \<Rightarrow> nat list" where
  "swapPairs ns = concat (map (\<lambda>i. [ns ! (2 * i + 1), ns ! (2 * i)]) [0 ..< length ns div 2])"

text \<open>\<open>enc.NewEncoder().String(src)\<close> and \<open>enc.NewDecoder().Bytes(src)\<close>.\<close>

definition xEncode :: "XEncoding \<Rightarrow> string \<Rightarrow> error + string" where
  "xEncode x src =
     (case x of
        xEncodingISO \<Rightarrow> map_sum (\<lambda>e. e) ofNats (isoEncode (natsOf src))
      | xEncodingUTF16BEBOM \<Rightarrow> Inr (ofNats ([0xFE, 0xFF] @ utf16Units (natsOf src)))
      | xEncodingUTF16LEBOM \<Rightarrow> Inr (ofNats (swapPairs ([0xFE, 0xFF] @ utf16Units (natsOf src))))
      | xEncodingUTF16BE \<Rightarrow> Inr (ofNats (utf16Units (natsOf src)))
      | xEncodingUTF8 \<Rightarrow> (if utf8Valid (natsOf src) then Inr src else Inl ErrInvalidUTF8))"

definition xDecode :: "XEncoding \<Rightarrow> byte list \<Rightarrow> error + byte list" where
  "xDecode x src =
     (case x of
        xEncodingISO \<Rightarrow> Inr (map word_of_nat (isoDecode (map unat src)))
      | xEncodingUTF16BEBOM \<Rightarrow>
          map_sum (\<lambda>e. e) (map word_of_nat) (utf16Decode False True True (map unat src))
      | xEncodingUTF16LEBOM \<Rightarrow>
          map_sum (\<lambda>e. e) (map word_of_nat) (utf16Decode True True True (map unat src))
      | xEncodingUTF16BE \<Rightarrow>
          map_sum (\<lambda>e. e) (map word_of_nat) (utf16Decode False False False (map unat src))
      | xEncodingUTF8 \<Rightarrow> Inr (map word_of_nat (utf8Decode (map unat src))))"

section \<open>Encoding and decoding text (encoding.go, continued)\<close>

definition bom :: "byte list" where
  "bom = [0xFF, 0xFE]"

definition resolveXEncoding :: "byte list \<Rightarrow> Encoding \<Rightarrow> XEncoding" where
  "resolveXEncoding src encoding =
     (if Key encoding = 0 then xEncodingISO
      else if Key encoding = 1 then
        (if length src > 2 \<and> take 2 src = bom then xEncodingUTF16LEBOM
         else xEncodingUTF16BEBOM)
      else if Key encoding = 2 then xEncodingUTF16BE
      else xEncodingUTF8)"

definition HasSuffix :: "byte list \<Rightarrow> byte list \<Rightarrow> bool" where
  "HasSuffix s suffix =
     (length s \<ge> length suffix \<and> drop (length s - length suffix) s = suffix)"

definition TrimSuffix :: "byte list \<Rightarrow> byte list \<Rightarrow> byte list" where
  "TrimSuffix s suffix =
     (if HasSuffix s suffix then take (length s - length suffix) s else s)"

text \<open>\<open>encodeWriteText\<close> returns its error and the writer after the call.\<close>

definition encodeWriteText :: "bufferedWriter \<Rightarrow> string \<Rightarrow> Encoding \<Rightarrow> error option \<times> bufferedWriter" where
  "encodeWriteText bw src to =
     (if Equals to EncodingUTF8 then (None, WriteString bw src)
      else case xEncode (resolveXEncoding [] to) src of
          Inl e \<Rightarrow> (Some e, bw)
        | Inr encoded \<Rightarrow>
            (let bw = WriteString bw encoded;
                 bw = (if Equals to EncodingUTF16 \<and> \<not> HasSuffix (bytesOf encoded) [0]
                       then WriteByte bw 0 else bw)
             in (None, bw)))"

definition EncodeAndWriteText :: "bufferedWriter \<Rightarrow> string \<Rightarrow> Encoding \<Rightarrow> bufferedWriter" where
  "EncodeAndWriteText bw src to =
     (if err bw \<noteq> None then bw
      else case encodeWriteText bw src to of (e, bw') \<Rightarrow> bw'\<lparr>err := e\<rparr>)"

text \<open>
  \<open>encodedSize\<close> writes the text to a writer on \<open>io.Discard\<close> and panics on an encoding
  error.
\<close>

definition encodedSize :: "string \<Rightarrow> Encoding \<Rightarrow> error + nat" where
  "encodedSize src enc =
     (if Equals enc EncodingUTF8 then Inr (length src)
      else case encodeWriteText newBufferedWriter src enc of
          (Some e, bw) \<Rightarrow> Inl (Panic e)
        | (None, bw) \<Rightarrow> Inr (Written bw))"

section \<open>Writing through a buffered writer (buffered\_writer.go, continued)\<close>

text \<open>
  An \<open>io.Writer\<close> handed to \<open>WriteTo\<close> is either a \<open>*bufferedWriter\<close> or some other,
  error-free writer, given by the bytes it holds. \<open>getBufWriter\<close> takes a writer from
  the pool and resets it onto the sink. After a successful \<open>Flush\<close> the sink holds every
  byte accepted; on an error return the bytes still buffered may not have reached it.
\<close>

datatype writer = Buffered bufferedWriter | Plain "byte list"

definition getBufWriter :: "byte list \<Rightarrow> bufferedWriter" where
  "getBufWriter out = \<lparr>err = None, sink = out, written = 0\<rparr>"

definition useBufferedWriter ::
  "writer \<Rightarrow> (bufferedWriter \<Rightarrow> error option \<times> bufferedWriter) \<Rightarrow> nat \<times> error option \<times> writer" where
  "useBufferedWriter w writeFunc =
     (case w of
        Buffered b \<Rightarrow>
          (let initialBytesWritten = Written b
           in case writeFunc b of
                (Some e, b') \<Rightarrow> (initialBytesWritten, Some e, Buffered b')
              | (None, b') \<Rightarrow> (Written b' - initialBytesWritten, Flush b', Buffered b'))
      | Plain out \<Rightarrow>
          (case writeFunc (getBufWriter out) of
             (Some e, b') \<Rightarrow> (0, Some e, Plain (sink b'))
           | (None, b') \<Rightarrow> (Written b' - 0, Flush b', Plain (sink b'))))"

text \<open>\<open>w.Write(p)\<close> on an \<open>io.Writer\<close>.\<close>

definition ioWrite :: "writer \<Rightarrow> byte list \<Rightarrow> nat \<times> error option \<times> writer" where
  "ioWrite w p =
     (case w of
        Buffered b \<Rightarrow> (case Write b p of (n, e, b') \<Rightarrow> (n, e, Buffered b'))
      | Plain out \<Rightarrow> (length p, None, Plain (out @ p)))"

section \<open>Frames: size and writer\<close>

text \<open>
  Sums in which an operand may panic: operands are evaluated from left to right and the
  first panic is the result.
\<close>

definition addE :: "error + nat \<Rightarrow> error + nat \<Rightarrow> error + nat" where
  "addE a b =
     (case a of Inl e \<Rightarrow> Inl e
      | Inr x \<Rightarrow> (case b of Inl e \<Rightarrow> Inl e | Inr y \<Rightarrow> Inr (x + y)))"

definition frameHeaderSize :: nat where
  "frameHeaderSize = 10"

definition truncateIntToUint :: "nat \<Rightarrow> uint" where
  "truncateIntToUint v = word_of_nat v"

definition writeFrameHeader :: "bufferedWriter \<Rightarrow> string \<Rightarrow> uint \<Rightarrow> bool \<Rightarrow> error option \<times> bufferedWriter" where
  "writeFrameHeader bw fid frameSize synchSafe =
     (let bw = WriteString bw fid;
          bw = WriteBytesSize bw frameSize synchSafe
      in case Write bw [0, 0] of (n, e, bw) \<Rightarrow> (e, bw))"

text \<open>
  \<open>writeFrame\<close> takes a \<open>Framer\<close>; the two methods of the interface it calls are the
  parameters \<open>Size\<close> and \<open>WriteTo\<close>.
\<close>

definition writeFrame ::
  "('f \<Rightarrow> error + nat) \<Rightarrow> ('f \<Rightarrow> writer \<Rightarrow> nat \<times> error option \<times> writer) \<Rightarrow>
   bufferedWriter \<Rightarrow> string \<Rightarrow> 'f \<Rightarrow> bool \<Rightarrow> error option \<times> bufferedWriter" where
  "writeFrame Size WriteTo bw fid frame synchSafe =
     (case Size frame of
        Inl e \<Rightarrow> (Some e, bw)
      | Inr sz \<Rightarrow>
          (case writeFrameHeader bw fid (truncateIntToUint sz) synchSafe of
             (Some e, bw) \<Rightarrow> (Some e, bw)
           | (None, bw) \<Rightarrow>
               (case WriteTo frame (Buffered bw) of
                  (n, e, Buffered bw) \<Rightarrow> (e, bw)
                | (n, e, Plain out) \<Rightarrow> (e, bw))))"

subsection \<open>TextFrame (text\_frame.go)\<close>

record TextFrame =
  Encoding :: Encoding
  Text :: string
  Multi :: "string list"

definition TextFrame_Size :: "TextFrame \<Rightarrow> error + nat" where
  "TextFrame_Size tf =
     addE (addE (Inr 1) (encodedSize (TextFrame.Text tf) (TextFrame.Encoding tf)))
          (Inr (length (TerminationBytes (TextFrame.Encoding tf))))"

definition TextFrame_WriteTo :: "TextFrame \<Rightarrow> writer \<Rightarrow> nat \<times> error option \<times> writer" where
  "TextFrame_WriteTo tf w =
     useBufferedWriter w (\<lambda>bw.
       let bw = WriteByte bw (Key (TextFrame.Encoding tf));
           bw = EncodeAndWriteText bw (TextFrame.Text tf) (TextFrame.Encoding tf)
       in case Write bw (TerminationBytes (TextFrame.Encoding tf)) of
            (n, Some e, bw) \<Rightarrow> (Some e, bw)
          | (n, None, bw) \<Rightarrow> (None, bw))"

subsection \<open>CommentFrame (comment\_frame.go)\<close>

record CommentFrame =
  Encoding :: Encoding
  Language :: string
  Description :: string
  Text :: string

definition CommentFrame_Size :: "CommentFrame \<Rightarrow> error + nat" where
  "CommentFrame_Size cf =
     addE (addE (addE (addE (Inr 1) (Inr (length (CommentFrame.Language cf))))
       (encodedSize (CommentFrame.Description cf) (CommentFrame.Encoding cf)))
       (Inr (length (TerminationBytes (CommentFrame.Encoding cf)))))
       (encodedSize (CommentFrame.Text cf) (CommentFrame.Encoding cf))"

definition CommentFrame_WriteTo :: "CommentFrame \<Rightarrow> writer \<Rightarrow> nat \<times> error option \<times> writer" where
  "CommentFrame_WriteTo cf w =
     (if length (CommentFrame.Language cf) \<noteq> 3 then (0, Some ErrInvalidLanguageLength, w)
      else useBufferedWriter w (\<lambda>bw.
        let bw = WriteByte bw (Key (CommentFrame.Encoding cf));
            bw = WriteString bw (CommentFrame.Language cf);
            bw = EncodeAndWriteText bw (CommentFrame.Description cf) (CommentFrame.Encoding cf)
        in case Write bw (TerminationBytes (CommentFrame.Encoding cf)) of
             (n, Some e, bw) \<Rightarrow> (Some e, bw)
           | (n, None, bw) \<Rightarrow>
               (None, EncodeAndWriteText bw (CommentFrame.Text cf) (CommentFrame.Encoding cf))))"

subsection \<open>PictureFrame (picture\_frame.go)\<close>

record PictureFrame =
  Encoding :: Encoding
  MimeType :: string
  PictureType :: byte
  Description :: string
  Picture :: "byte list"

definition PictureFrame_Size :: "PictureFrame \<Rightarrow> error + nat" where
  "PictureFrame_Size pf =
     addE (addE (addE (Inr (1 + length (MimeType pf) + 1 + 1))
       (encodedSize (PictureFrame.Description pf) (PictureFrame.Encoding pf)))
       (Inr (length (TerminationBytes (PictureFrame.Encoding pf)))))
       (Inr (length (Picture pf)))"

definition PictureFrame_WriteTo :: "PictureFrame \<Rightarrow> writer \<Rightarrow> nat \<times> error option \<times> writer" where
  "PictureFrame_WriteTo pf w =
     useBufferedWriter w (\<lambda>bw.
       let bw = WriteByte bw (Key (PictureFrame.Encoding pf));
           bw = WriteString bw (MimeType pf);
           bw = WriteByte bw 0;
           bw = WriteByte bw (PictureType pf);
           bw = EncodeAndWriteText bw (PictureFrame.Description pf) (PictureFrame.Encoding pf)
       in case Write bw (TerminationBytes (PictureFrame.Encoding pf)) of
            (n, Some e, bw) \<Rightarrow> (Some e, bw)
          | (n, None, bw) \<Rightarrow>
              (case Write bw (Picture pf) of
                 (n, Some e, bw) \<Rightarrow> (Some e, bw)
               | (n, None, bw) \<Rightarrow> (None, bw)))"

subsection \<open>PopularimeterFrame (popularimeter\_frame.go)\<close>

text \<open>
  \<open>Counter\<close> is a \<open>*big.Int\<close>: \<open>None\<close> is the nil pointer, on which \<open>Bytes\<close> panics.
  \<open>natBytes\<close> is \<open>big.Int.Bytes\<close>: the absolute value, big-endian, without leading
  zero bytes.
\<close>

function natBytes :: "nat \<Rightarrow> byte list" where
  "natBytes n = (if n = 0 then [] else natBytes (n div 256) @ [word_of_nat (n mod 256)])"
  by pat_completeness auto
termination natBytes
  by (relation "measure (\<lambda>n. n)") auto

record PopularimeterFrame =
  Email :: string
  Rating :: byte
  Counter :: "int option"

definition counterBytes :: "PopularimeterFrame \<Rightarrow> error + byte list" where
  "counterBytes pf =
     (case Counter pf of
        None \<Rightarrow> Inl PanicNilDereference
      | Some c \<Rightarrow>
          (let bytes = natBytes (nat \<bar>c\<bar>);
               bytesNeeded = 4 - int (length bytes)
           in if bytesNeeded > 0 then Inr (replicate (nat bytesNeeded) 0 @ bytes)
              else Inr bytes))"

definition PopularimeterFrame_Size :: "PopularimeterFrame \<Rightarrow> error + nat" where
  "PopularimeterFrame_Size pf =
     addE (Inr (length (Email pf) + 1 + 1)) (map_sum (\<lambda>e. e) length (counterBytes pf))"

definition PopularimeterFrame_WriteTo :: "PopularimeterFrame \<Rightarrow> writer \<Rightarrow> nat \<times> error option \<times> writer" where
  "PopularimeterFrame_WriteTo pf w =
     useBufferedWriter w (\<lambda>bw.
       let bw = WriteString bw (Email pf);
           bw = WriteByte bw 0;
           bw = WriteByte bw (Rating pf)
       in case counterBytes pf of
            Inl e \<Rightarrow> (Some e, bw)
          | Inr bytes \<Rightarrow>
              (case Write bw bytes of
                 (n, Some e, bw) \<Rightarrow> (Some e, bw)
               | (n, None, bw) \<Rightarrow> (None, bw)))"

subsection \<open>UFIDFrame (ufid\_frame.go)\<close>

record UFIDFrame =
  OwnerIdentifier :: string
  Identifier :: "byte list"

definition UFIDFrame_Size :: "UFIDFrame \<Rightarrow> error + nat" where
  "UFIDFrame_Size ufid =
     addE (addE (encodedSize (OwnerIdentifier ufid) EncodingISO)
       (Inr (length (TerminationBytes EncodingISO))))
       (Inr (length (Identifier ufid)))"

definition UFIDFrame_WriteTo :: "UFIDFrame \<Rightarrow> writer \<Rightarrow> nat \<times> error option \<times> writer" where
  "UFIDFrame_WriteTo ufid w =
     useBufferedWriter w (\<lambda>bw.
       let bw = WriteString bw (OwnerIdentifier ufid)
       in case Write bw (TerminationBytes EncodingISO) of
            (n, Some e, bw) \<Rightarrow> (Some e, bw)
          | (n, None, bw) \<Rightarrow>
              (case Write bw (Identifier ufid) of
                 (n, Some e, bw) \<Rightarrow> (Some e, bw)
               | (n, None, bw) \<Rightarrow> (None, bw)))"

subsection \<open>LinkFrame and UserDefinedTextFrame (link\_frame.go)\<close>

record LinkFrame =
  Encoding :: Encoding
  URL :: string

definition LinkFrame_Size :: "LinkFrame \<Rightarrow> error + nat" where
  "LinkFrame_Size lf =
     addE (addE (Inr 1) (encodedSize (URL lf) (LinkFrame.Encoding lf)))
          (Inr (length (TerminationBytes (LinkFrame.Encoding lf))))"

definition LinkFrame_WriteTo :: "LinkFrame \<Rightarrow> writer \<Rightarrow> nat \<times> error option \<times> writer" where
  "LinkFrame_WriteTo lf w =
     useBufferedWriter w (\<lambda>bw.
       let bw = WriteByte bw (Key (LinkFrame.Encoding lf));
           bw = EncodeAndWriteText bw (URL lf) (LinkFrame.Encoding lf)
       in case Write bw (TerminationBytes (LinkFrame.Encoding lf)) of
            (n, Some e, bw) \<Rightarrow> (Some e, bw)
          | (n, None, bw) \<Rightarrow> (None, bw))"

record UserDefinedTextFrame =
  Encoding :: Encoding
  Description :: string
  Value :: string
  Multi :: "string list"

definition UserDefinedTextFrame_Size :: "UserDefinedTextFrame \<Rightarrow> error + nat" where
  "UserDefinedTextFrame_Size udtf =
     addE (addE (addE (Inr 1)
       (encodedSize (UserDefinedTextFrame.Description udtf) (UserDefinedTextFrame.Encoding udtf)))
       (Inr (length (TerminationBytes (UserDefinedTextFrame.Encoding udtf)))))
       (encodedSize (Value udtf) (UserDefinedTextFrame.Encoding udtf))"

definition UserDefinedTextFrame_WriteTo ::
  "UserDefinedTextFrame \<Rightarrow> writer \<Rightarrow> nat \<times> error option \<times> writer" where
  "UserDefinedTextFrame_WriteTo udtf w =
     useBufferedWriter w (\<lambda>bw.
       let bw = WriteByte bw (Key (UserDefinedTextFrame.Encoding udtf));
           bw = EncodeAndWriteText bw (UserDefinedTextFrame.Description udtf)
                  (UserDefinedTextFrame.Encoding udtf)
       in case Write bw (TerminationBytes (UserDefinedTextFrame.Encoding udtf)) of
            (n, Some e, bw) \<Rightarrow> (Some e, bw)
          | (n, None, bw) \<Rightarrow>
              (None, EncodeAndWriteText bw (Value udtf) (UserDefinedTextFrame.Encoding udtf)))"

subsection \<open>SynchronisedLyricsFrame (synchronised\_lyrics\_frame.go)\<close>

record SynchronizedText =
  Text :: string
  Timestamp :: "32 word"

record SynchronisedLyricsFrame =
  Encoding :: Encoding
  Language :: string
  TimestampFormat :: byte
  ContentType :: byte
  ContentDescriptor :: string
  SynchronizedTexts :: "SynchronizedText list"

text \<open>\<open>binary.BigEndian.PutUint32\<close>.\<close>

definition bigEndian32 :: "32 word \<Rightarrow> byte list" where
  "bigEndian32 x = [ucast (drop_bit 24 x), ucast (drop_bit 16 x), ucast (drop_bit 8 x), ucast x]"

definition timestampToBigEndian :: "SynchronizedText \<Rightarrow> byte list" where
  "timestampToBigEndian sy = bigEndian32 (Timestamp sy)"

text \<open>The loop of \<open>Size\<close> over the synchronized texts, with the sum \<open>s\<close> so far.\<close>

fun syltSizeLoop :: "Encoding \<Rightarrow> error + nat \<Rightarrow> SynchronizedText list \<Rightarrow> error + nat" where
  "syltSizeLoop enc s [] = s"
| "syltSizeLoop enc s (v # vs) =
     syltSizeLoop enc
       (addE (addE (addE s (encodedSize (SynchronizedText.Text v) enc))
          (Inr (length (TerminationBytes enc)))) (Inr 4)) vs"

definition SynchronisedLyricsFrame_Size :: "SynchronisedLyricsFrame \<Rightarrow> error + nat" where
  "SynchronisedLyricsFrame_Size sylf =
     (case syltSizeLoop (SynchronisedLyricsFrame.Encoding sylf) (Inr 0) (SynchronizedTexts sylf) of
        Inl e \<Rightarrow> Inl e
      | Inr s \<Rightarrow>
          addE (addE (addE (addE (addE (addE (Inr 1)
            (Inr (length (SynchronisedLyricsFrame.Language sylf))))
            (encodedSize (SynchronisedLyricsFrame.ContentDescriptor sylf)
               (SynchronisedLyricsFrame.Encoding sylf)))
            (Inr (length (TerminationBytes (SynchronisedLyricsFrame.Encoding sylf)))))
            (Inr s)) (Inr 1)) (Inr 1))"

text \<open>The loop of \<open>WriteTo\<close> over the synchronized texts.\<close>

fun syltWriteLoop :: "Encoding \<Rightarrow> bufferedWriter \<Rightarrow> SynchronizedText list \<Rightarrow> error option \<times> bufferedWriter" where
  "syltWriteLoop enc bw [] = (None, bw)"
| "syltWriteLoop enc bw (v # vs) =
     (let bw = EncodeAndWriteText bw (SynchronizedText.Text v) enc
      in case Write bw (TerminationBytes enc) of
           (n, Some e, bw) \<Rightarrow> (Some e, bw)
         | (n, None, bw) \<Rightarrow>
             (case Write bw (timestampToBigEndian v) of
                (n, Some e, bw) \<Rightarrow> (Some e, bw)
              | (n, None, bw) \<Rightarrow> syltWriteLoop enc bw vs))"

definition SynchronisedLyricsFrame_WriteTo ::
  "SynchronisedLyricsFrame \<Rightarrow> writer \<Rightarrow> nat \<times> error option \<times> writer" where
  "SynchronisedLyricsFrame_WriteTo sylf w =
     (if length (SynchronisedLyricsFrame.Language sylf) \<noteq> 3
      then (0, Some ErrInvalidLanguageLength, w)
      else useBufferedWriter w (\<lambda>bw.
        let bw = WriteByte bw (Key (SynchronisedLyricsFrame.Encoding sylf));
            bw = WriteString bw (SynchronisedLyricsFrame.Language sylf);
            bw = WriteByte bw (TimestampFormat sylf);
            bw = WriteByte bw (ContentType sylf);
            bw = EncodeAndWriteText bw (SynchronisedLyricsFrame.ContentDescriptor sylf)
                   (SynchronisedLyricsFrame.Encoding sylf)
        in case Write bw (TerminationBytes (SynchronisedLyricsFrame.Encoding sylf)) of
             (n, Some e, bw) \<Rightarrow> (Some e, bw)
           | (n, None, bw) \<Rightarrow>
               syltWriteLoop (SynchronisedLyricsFrame.Encoding sylf) bw (SynchronizedTexts sylf)))"

subsection \<open>UnsynchronisedLyricsFrame (unsynchronised\_lyrics\_frame.go)\<close>

record UnsynchronisedLyricsFrame =
  Encoding :: Encoding
  Language :: string
  ContentDescriptor :: string
  Lyrics :: string

definition UnsynchronisedLyricsFrame_Size :: "UnsynchronisedLyricsFrame \<Rightarrow> error + nat" where
  "UnsynchronisedLyricsFrame_Size uslf =
     addE (addE (addE (addE (Inr 1) (Inr (length (UnsynchronisedLyricsFrame.Language uslf))))
       (encodedSize (UnsynchronisedLyricsFrame.ContentDescriptor uslf)
          (UnsynchronisedLyricsFrame.Encoding uslf)))
       (Inr (length (TerminationBytes (UnsynchronisedLyricsFrame.Encoding uslf)))))
       (encodedSize (Lyrics uslf) (UnsynchronisedLyricsFrame.Encoding uslf))"

definition UnsynchronisedLyricsFrame_WriteTo ::
  "UnsynchronisedLyricsFrame \<Rightarrow> writer \<Rightarrow> nat \<times> error option \<times> writer" where
  "UnsynchronisedLyricsFrame_WriteTo uslf w =
     (if length (UnsynchronisedLyricsFrame.Language uslf) \<noteq> 3
      then (0, Some ErrInvalidLanguageLength, w)
      else useBufferedWriter w (\<lambda>bw.
        let bw = WriteByte bw (Key (UnsynchronisedLyricsFrame.Encoding uslf));
            bw = WriteString bw (UnsynchronisedLyricsFrame.Language uslf);
            bw = EncodeAndWriteText bw (UnsynchronisedLyricsFrame.ContentDescriptor uslf)
                   (UnsynchronisedLyricsFrame.Encoding uslf)
        in case Write bw (TerminationBytes (UnsynchronisedLyricsFrame.Encoding uslf)) of
             (n, Some e, bw) \<Rightarrow> (Some e, bw)
           | (n, None, bw) \<Rightarrow>
               (None, EncodeAndWriteText bw (Lyrics uslf) (UnsynchronisedLyricsFrame.Encoding uslf))))"

subsection \<open>ChapterFrame (chapter\_frame.go)\<close>

text \<open>
  \<open>StartTime\<close> and \<open>EndTime\<close> are \<open>time.Duration\<close> values, read as the integers they
  denote; the four pointer fields are \<open>None\<close> when nil. Go's integer division truncates
  towards zero.
\<close>

record ChapterFrame =
  ElementID :: string
  StartTime :: int
  EndTime :: int
  StartOffset :: "32 word"
  EndOffset :: "32 word"
  Title :: "TextFrame option"
  Description :: "TextFrame option"
  Link :: "LinkFrame option"
  Artwork :: "PictureFrame option"

definition nanosInMillis :: int where
  "nanosInMillis = 1000000"

definition quot :: "int \<Rightarrow> int \<Rightarrow> int" where
  "quot a b = (if (a < 0) = (b < 0) then \<bar>a\<bar> div \<bar>b\<bar> else - (\<bar>a\<bar> div \<bar>b\<bar>))"

definition truncateInt64ToInt32 :: "int \<Rightarrow> 32 word" where
  "truncateInt64ToInt32 v =
     (if v < - 2147483648 then word_of_int (- 2147483648)
      else if v > 2147483647 then word_of_int 2147483647
      else word_of_int v)"

definition TitleFrameID :: string where
  "TitleFrameID = ''TIT2''"

definition SubtitleRefinementFrameID :: string where
  "SubtitleRefinementFrameID = ''TIT3''"

definition ChapterFrame_Size :: "ChapterFrame \<Rightarrow> error + nat" where
  "ChapterFrame_Size cf =
     (let sz = addE (encodedSize (ElementID cf) EncodingISO) (Inr (1 + 4 + 4 + 4 + 4));
          sz = (case Title cf of
                  None \<Rightarrow> sz
                | Some t \<Rightarrow> addE sz (addE (Inr frameHeaderSize) (TextFrame_Size t)));
          sz = (case ChapterFrame.Description cf of
                  None \<Rightarrow> sz
                | Some d \<Rightarrow> addE sz (addE (Inr frameHeaderSize) (TextFrame_Size d)))
      in sz)"

text \<open>\<open>binary.Write\<close> of a 32-bit value hands its four bytes to \<open>bw.Write\<close>.\<close>

definition binaryWrite :: "bufferedWriter \<Rightarrow> 32 word \<Rightarrow> error option \<times> bufferedWriter" where
  "binaryWrite bw x = (case Write bw (bigEndian32 x) of (n, e, bw) \<Rightarrow> (e, bw))"

definition ChapterFrame_WriteTo :: "ChapterFrame \<Rightarrow> writer \<Rightarrow> nat \<times> error option \<times> writer" where
  "ChapterFrame_WriteTo cf w =
     useBufferedWriter w (\<lambda>bw.
       let bw = EncodeAndWriteText bw (ElementID cf) EncodingISO;
           bw = WriteByte bw 0
       in case binaryWrite bw (truncateInt64ToInt32 (quot (StartTime cf) nanosInMillis)) of
         (Some e, bw) \<Rightarrow> (Some e, bw)
       | (None, bw) \<Rightarrow>
       (case binaryWrite bw (truncateInt64ToInt32 (quot (EndTime cf) nanosInMillis)) of
         (Some e, bw) \<Rightarrow> (Some e, bw)
       | (None, bw) \<Rightarrow>
       (case binaryWrite bw (StartOffset cf) of
         (Some e, bw) \<Rightarrow> (Some e, bw)
       | (None, bw) \<Rightarrow>
       (case binaryWrite bw (EndOffset cf) of
         (Some e, bw) \<Rightarrow> (Some e, bw)
       | (None, bw) \<Rightarrow>
       (case (case Title cf of
                None \<Rightarrow> (None, bw)
              | Some t \<Rightarrow> writeFrame TextFrame_Size TextFrame_WriteTo bw TitleFrameID t True) of
         (Some e, bw) \<Rightarrow> (Some e, bw)
       | (None, bw) \<Rightarrow>
       (case (case ChapterFrame.Description cf of
                None \<Rightarrow> (None, bw)
              | Some d \<Rightarrow>
                  writeFrame TextFrame_Size TextFrame_WriteTo bw SubtitleRefinementFrameID d True) of
         (Some e, bw) \<Rightarrow> (Some e, bw)
       | (None, bw) \<Rightarrow> (None, bw)))))))"

subsection \<open>UnknownFrame (unknown\_frame.go)\<close>

record UnknownFrame =
  Body :: "byte list"

definition UnknownFrame_Size :: "UnknownFrame \<Rightarrow> error + nat" where
  "UnknownFrame_Size uf = Inr (length (Body uf))"

definition UnknownFrame_WriteTo :: "UnknownFrame \<Rightarrow> writer \<Rightarrow> nat \<times> error option \<times> writer" where
  "UnknownFrame_WriteTo uf w = ioWrite w (Body uf)"

section \<open>Auxiliary notions\<close>

text \<open>
  What \<open>encodeWriteText\<close> writes for a text and an encoding, as a value; \<open>wrote bw bw' k\<close>
  says that an error-free writer \<open>bw\<close> became the error-free writer \<open>bw'\<close> by accepting
  \<open>k\<close> more bytes; \<open>accepted\<close> is the content of an \<open>io.Writer\<close>.
\<close>

definition encoded :: "string \<Rightarrow> Encoding \<Rightarrow> error + byte list" where
  "encoded src to =
     (if Equals to EncodingUTF8 then Inr (bytesOf src)
      else case xEncode (resolveXEncoding [] to) src of
          Inl e \<Rightarrow> Inl e
        | Inr en \<Rightarrow>
            Inr (bytesOf en @
                 (if Equals to EncodingUTF16 \<and> \<not> HasSuffix (bytesOf en) [0] then [0] else [])))"

definition wrote :: "bufferedWriter \<Rightarrow> bufferedWriter \<Rightarrow> nat \<Rightarrow> bool" where
  "wrote bw bw' k =
     (err bw = None \<and> err bw' = None \<and> written bw' = written bw + k \<and>
      (\<exists>bs. length bs = k \<and> sink bw' = sink bw @ bs))"

definition accepted :: "writer \<Rightarrow> byte list" where
  "accepted w = (case w of Buffered b \<Rightarrow> sink b | Plain out \<Rightarrow> out)"


text \<open>
  Names for the bytes the two writers emit: the 7-bit and the 8-bit group of \<open>s\<close> that
  starts at bit \<open>k\<close>.
\<close>

definition septet :: "nat \<Rightarrow> uint \<Rightarrow> byte" where
  "septet k s = ucast (take_bit 7 (drop_bit k s))"

definition octet :: "nat \<Rightarrow> uint \<Rightarrow> byte" where
  "octet k s = ucast (take_bit 8 (drop_bit k s))"

section \<open>Properties\<close>

text \<open>
  C9. \<open>getEncoding\<close> returns an encoding for each of the 256 key bytes and never panics
  on its table lookup: keys 0, 1, 2, 3 give ISO-8859-1, UTF-16 with BOM, UTF-16BE and
  UTF-8, and every key above 3 gives UTF-8.
\<close>

theorem getEncoding_total:
  "getEncoding key =
     Inr (if key = 0 then EncodingISO
          else if key = 1 then EncodingUTF16
          else if key = 2 then EncodingUTF16BE
          else EncodingUTF8)"
proof (cases "key > 3")
  case True
  then have "key \<noteq> 0" "key \<noteq> 1" "key \<noteq> 2" by auto
  with True show ?thesis by (simp add: getEncoding_def)
next
  case False
  then have "unat key \<le> 3" by (simp add: word_le_nat_alt not_less)
  then have "unat key = 0 \<or> unat key = 1 \<or> unat key = 2 \<or> unat key = 3" by arith
  then have k: "key = 0 \<or> key = 1 \<or> key = 2 \<or> key = 3"
    by (auto simp: word_unat_eq_iff)
  from False k show ?thesis
    by (auto simp: getEncoding_def index_def encodings_def)
qed

subsection \<open>Frame routing\<close>

text \<open>
  C1 (what the code does). \<open>mustFrameBeInSequence\<close> returns true for each of the eleven
  ids of the first \<open>case\<close> of its switch, so \<open>Tag.AddFrame\<close> puts a frame with such an id
  into a sequence and leaves the map of single frames alone; only \<open>IPLS\<close> and \<open>RVAD\<close>
  are routed to the map of single frames.
\<close>

theorem mustFrameBeInSequence_first_case:
  "mustFrameBeInSequence ''MCDI'' \<and> mustFrameBeInSequence ''ETCO'' \<and>
   mustFrameBeInSequence ''SYTC'' \<and> mustFrameBeInSequence ''RVRB'' \<and>
   mustFrameBeInSequence ''MLLT'' \<and> mustFrameBeInSequence ''PCNT'' \<and>
   mustFrameBeInSequence ''RBUF'' \<and> mustFrameBeInSequence ''POSS'' \<and>
   mustFrameBeInSequence ''OWNE'' \<and> mustFrameBeInSequence ''SEEK'' \<and>
   mustFrameBeInSequence ''ASPI'' \<and>
   \<not> mustFrameBeInSequence ''IPLS'' \<and> \<not> mustFrameBeInSequence ''RVAD'' \<and>
   sequences (AddFrame uid NewEmptyTag ''MCDI'' (Some f)) ''MCDI'' = Some [f] \<and>
   frames (AddFrame uid NewEmptyTag ''MCDI'' (Some f)) ''MCDI'' = None \<and>
   frames (AddFrame uid NewEmptyTag ''IPLS'' (Some f)) ''IPLS'' = Some f \<and>
   sequences (AddFrame uid NewEmptyTag ''IPLS'' (Some f)) ''IPLS'' = None"
  by (simp add: mustFrameBeInSequence_def sequenceSwitch_def UserDefinedTextFrameID_def
      HasPrefix_def AddFrame_def NewEmptyTag_def init_def newTag_def DeleteAllFrames_def
      setDefaultEncodingBasedOnVersion_def SetDefaultEncoding_def getSequence_def
      seqAddFrame_def indexOfFrame_def)

subsection \<open>Sequences\<close>

lemma indexOfFrameFrom_absent:
  "0 \<le> i \<Longrightarrow> (indexOfFrameFrom uid f fs i = -1) = (uid f \<notin> uid ` set fs)"
proof (induction fs arbitrary: i)
  case Nil
  then show ?case by simp
next
  case (Cons ff fs)
  from Cons.prems have "0 \<le> i + 1" by simp
  from Cons.IH [OF this] Cons.prems show ?case by auto
qed

lemma indexOfFrameFrom_present:
  "uid f \<in> uid ` set fs \<Longrightarrow>
   \<exists>k<length fs. indexOfFrameFrom uid f fs i = i + int k \<and> uid (fs ! k) = uid f"
proof (induction fs arbitrary: i)
  case Nil
  then show ?case by simp
next
  case (Cons ff fs)
  show ?case
  proof (cases "uid f = uid ff")
    case True
    then have "indexOfFrameFrom uid f (ff # fs) i = i + int 0 \<and> uid ((ff # fs) ! 0) = uid f"
      by simp
    then show ?thesis by blast
  next
    case False
    with Cons.prems have "uid f \<in> uid ` set fs" by auto
    from Cons.IH [OF this, of "i + 1"] obtain k where
      k: "k < length fs" "indexOfFrameFrom uid f fs (i + 1) = i + 1 + int k"
         "uid (fs ! k) = uid f" by blast
    with False have "Suc k < length (ff # fs) \<and>
        indexOfFrameFrom uid f (ff # fs) i = i + int (Suc k) \<and>
        uid ((ff # fs) ! Suc k) = uid f" by simp
    then show ?thesis by blast
  qed
qed

lemma seqAddFrame_absent:
  "uid f \<notin> uid ` set s \<Longrightarrow> seqAddFrame uid s f = s @ [f]"
  using indexOfFrameFrom_absent [of 0 uid f s]
  by (simp add: seqAddFrame_def indexOfFrame_def)

lemma seqAddFrame_present:
  assumes "uid f \<in> uid ` set s"
  shows "\<exists>k<length s. uid (s ! k) = uid f \<and> seqAddFrame uid s f = s[k := f]"
proof -
  from indexOfFrameFrom_present [OF assms, of 0] obtain k where
    k: "k < length s" "indexOfFrameFrom uid f s 0 = int k" "uid (s ! k) = uid f" by auto
  then have "seqAddFrame uid s f = s[k := f]"
    by (simp add: seqAddFrame_def indexOfFrame_def)
  with k show ?thesis by blast
qed

text \<open>
  C5. \<open>sequence.AddFrame\<close> keeps the identity keys of a sequence pairwise distinct. If an
  entry of the sequence has the key of the new frame, that entry is replaced where it
  stands and the length is unchanged; otherwise the frame is appended at the end and the
  length grows by one.
\<close>

theorem seqAddFrame_keys_distinct:
  "(distinct (map uid s) \<longrightarrow> distinct (map uid (seqAddFrame uid s f))) \<and>
   (uid f \<in> uid ` set s \<longrightarrow>
      (\<exists>k<length s. uid (s ! k) = uid f \<and> seqAddFrame uid s f = s[k := f]) \<and>
      length (seqAddFrame uid s f) = length s) \<and>
   (uid f \<notin> uid ` set s \<longrightarrow>
      seqAddFrame uid s f = s @ [f] \<and> length (seqAddFrame uid s f) = length s + 1)"
proof (cases "uid f \<in> uid ` set s")
  case True
  from seqAddFrame_present [OF True] obtain k where
    k: "k < length s" "uid (s ! k) = uid f" "seqAddFrame uid s f = s[k := f]" by blast
  from k have "map uid (seqAddFrame uid s f) = (map uid s)[k := uid (s ! k)]"
    by (simp add: map_update)
  also from k(1) have "\<dots> = map uid s"
    by (metis list_update_id nth_map)
  finally have "map uid (seqAddFrame uid s f) = map uid s" .
  with True k show ?thesis by auto
next
  case False
  then have "seqAddFrame uid s f = s @ [f]" by (rule seqAddFrame_absent)
  with False show ?thesis by auto
qed

theorem seqAddFrame_keys_distinct_witness:
  "distinct (map fst [(''a'', 1::nat), (''b'', 2)]) \<and>
   seqAddFrame fst [(''a'', 1::nat), (''b'', 2)] (''b'', 7) = [(''a'', 1), (''b'', 7)] \<and>
   distinct (map fst (seqAddFrame fst [(''a'', 1::nat), (''b'', 2)] (''b'', 7))) \<and>
   seqAddFrame fst [(''a'', 1::nat), (''b'', 2)] (''c'', 7) = [(''a'', 1), (''b'', 2), (''c'', 7)] \<and>
   distinct (map fst (seqAddFrame fst [(''a'', 1::nat), (''b'', 2)] (''c'', 7)))"
  using seqAddFrame_keys_distinct [of fst "[(''a'', 1::nat), (''b'', 2)]" "(''b'', 7)"]
        seqAddFrame_keys_distinct [of fst "[(''a'', 1::nat), (''b'', 2)]" "(''c'', 7)"]
  by (simp add: seqAddFrame_def indexOfFrame_def)

subsection \<open>Adding frames to a tag\<close>

text \<open>
  C10. \<open>Tag.AddFrame\<close> with an empty id or with a nil frame leaves the tag as it was:
  the map of single frames, every sequence, the frame count and every other field.
\<close>

theorem AddFrame_empty_or_nil_noop:
  "AddFrame uid tag [] fo = tag \<and> AddFrame uid tag fid None = tag \<and>
   Count (AddFrame uid tag [] fo) = Count tag \<and>
   Count (AddFrame uid tag fid None) = Count tag"
  by (cases fo) (simp_all add: AddFrame_def)

subsection \<open>Size codec\<close>

lemma parseSizeLoop_raw: "\<exists>v. parseSizeLoop False sizeBase sz data = Inr v"
  by (induction data arbitrary: sz) simp_all

lemma parseSizeLoop_top_bit:
  "\<exists>b \<in> set data. b AND 128 > 0 \<Longrightarrow>
   parseSizeLoop True sizeBase sz data = Inl ErrInvalidSizeFormat"
  by (induction data arbitrary: sz) auto

text \<open>
  C4. For a slice of at most 4 bytes in which some byte has its top bit set,
  \<open>parseSize\<close> with \<open>synchSafe = true\<close> returns \<open>ErrInvalidSizeFormat\<close>, and with
  \<open>synchSafe = false\<close> it returns a size, not that error.
\<close>

theorem parseSize_top_bit:
  assumes "length data \<le> 4" and "\<exists>b \<in> set data. b AND 128 > 0"
  shows "parseSize data True = Inl ErrInvalidSizeFormat \<and>
         (\<exists>v. parseSize data False = Inr v) \<and>
         parseSize data False \<noteq> Inl ErrInvalidSizeFormat"
proof -
  from assms(2) have "parseSize data True = Inl ErrInvalidSizeFormat"
    by (simp add: parseSize_def parseSizeLoop_top_bit)
  moreover from assms(1) obtain v where "parseSize data False = Inr v"
    using parseSizeLoop_raw [of synchUnsafeSizeBase 0 data]
    by (auto simp: parseSize_def id3SizeLen_def)
  ultimately show ?thesis by simp
qed

theorem parseSize_top_bit_witness:
  "length [0, 0, 255, 255 :: byte] \<le> 4 \<and> (\<exists>b \<in> set [0, 0, 255, 255 :: byte]. b AND 128 > 0) \<and>
   parseSize [0, 0, 255, 255] True = Inl ErrInvalidSizeFormat \<and>
   parseSize [0, 0, 255, 255] False = Inr 65535"
proof -
  have h1: "length [0, 0, 255, 255 :: byte] \<le> 4" by simp
  have h2: "\<exists>b \<in> set [0, 0, 255, 255 :: byte]. b AND 128 > 0" by simp
  have "parseSize [0, 0, 255, 255] False = Inr 65535"
    by (simp add: parseSize_def id3SizeLen_def synchUnsafeSizeBase_def)
  with h1 h2 parseSize_top_bit [OF h1 h2] show ?thesis by simp
qed

lemma upper_bits: "(s :: 64 word) < 2 ^ m \<Longrightarrow> bit s k \<Longrightarrow> k < m"
proof -
  assume a: "s < 2 ^ m" and b: "bit s k"
  from less_mask_eq [OF a] have "take_bit m s = s" by (simp only: take_bit_eq_mask)
  with b have "bit (take_bit m s) k" by simp
  then show "k < m" by (simp add: bit_take_bit_iff)
qed

lemma synchSafeMask_eq: "synchSafeMask = push_bit 25 (mask 7)"
  by (simp add: synchSafeMask_def mask_eq_exp_minus_1)

lemma synchUnsafeMask_eq: "synchUnsafeMask = push_bit 24 (mask 8)"
  by (simp add: synchUnsafeMask_def mask_eq_exp_minus_1)

lemma synchSafe_byte:
  "n \<le> 25 \<Longrightarrow> (ucast (drop_bit 25 (push_bit n s AND synchSafeMask)) :: byte) = septet (25 - n) s"
  unfolding synchSafeMask_eq septet_def
  by (rule bit_word_eqI) (auto simp: bit_simps)

lemma synchUnsafe_byte:
  "n \<le> 24 \<Longrightarrow> (ucast (drop_bit 24 (push_bit n s AND synchUnsafeMask)) :: byte) = octet (24 - n) s"
  unfolding synchUnsafeMask_eq octet_def
  by (rule bit_word_eqI) (auto simp: bit_simps)

lemma synchSafeLoop_step:
  assumes "err bw = None" and "n \<le> 25"
  shows "synchSafeLoop (Suc k) bw (push_bit n s) =
         synchSafeLoop k (bw\<lparr>sink := sink bw @ [septet (25 - n) s], written := written bw + 1\<rparr>)
           (push_bit (7 + n) s)"
  using assms synchSafe_byte [OF assms(2), of s]
  by (simp add: WriteByte_def synchSafeSizeBase_def push_bit_push_bit)

lemma synchSafeLoop_four:
  assumes "err bw = None" and "n + 21 \<le> 25"
  shows "synchSafeLoop (Suc (Suc (Suc (Suc 0)))) bw (push_bit n s) =
         bw\<lparr>sink := sink bw @ [septet (25 - n) s, septet (18 - n) s, septet (11 - n) s,
                                septet (4 - n) s],
            written := written bw + 4\<rparr>"
  using assms by (simp add: synchSafeLoop_step del: synchSafeLoop.simps(2))

lemma synchSafeLoop_sink:
  assumes "err bw = None"
  shows "synchSafeLoop id3SizeLen bw (push_bit 4 s) =
         bw\<lparr>sink := sink bw @ [septet 21 s, septet 14 s, septet 7 s, septet 0 s],
            written := written bw + 4\<rparr>"
proof -
  have four: "id3SizeLen = Suc (Suc (Suc (Suc 0)))" by (simp add: id3SizeLen_def)
  show ?thesis unfolding four
    using synchSafeLoop_four [OF assms, of 4 s] by simp
qed

lemma synchUnsafeLoop_step:
  assumes "err bw = None" and "n \<le> 24"
  shows "synchUnsafeLoop (Suc k) bw (push_bit n s) =
         synchUnsafeLoop k (bw\<lparr>sink := sink bw @ [octet (24 - n) s], written := written bw + 1\<rparr>)
           (push_bit (8 + n) s)"
  using assms synchUnsafe_byte [OF assms(2), of s]
  by (simp add: WriteByte_def synchUnsafeSizeBase_def push_bit_push_bit)

lemma synchUnsafeLoop_first:
  assumes "err bw = None"
  shows "synchUnsafeLoop (Suc k) bw s =
         synchUnsafeLoop k (bw\<lparr>sink := sink bw @ [octet 24 s], written := written bw + 1\<rparr>)
           (push_bit 8 s)"
  using synchUnsafeLoop_step [OF assms, of 0 k s] by simp

lemma synchUnsafeLoop_sink:
  assumes "err bw = None"
  shows "synchUnsafeLoop id3SizeLen bw s =
         bw\<lparr>sink := sink bw @ [octet 24 s, octet 16 s, octet 8 s, octet 0 s],
            written := written bw + 4\<rparr>"
proof -
  have four: "id3SizeLen = Suc (Suc (Suc (Suc 0)))" by (simp add: id3SizeLen_def)
  have rest: "\<And>n bw'. err bw' = None \<Longrightarrow> n = 8 \<Longrightarrow>
      synchUnsafeLoop (Suc (Suc (Suc 0))) bw' (push_bit n s) =
      bw'\<lparr>sink := sink bw' @ [octet 16 s, octet 8 s, octet 0 s], written := written bw' + 3\<rparr>"
    by (simp add: synchUnsafeLoop_step del: synchUnsafeLoop.simps(2))
  show ?thesis unfolding four
    by (simp only: synchUnsafeLoop_first [OF assms]) (simp add: rest assms del: synchUnsafeLoop.simps(2))
qed


lemma septet_top: "septet k s AND 128 = 0"
proof -
  have x: "septet k s AND mask 7 = septet k s"
    unfolding septet_def by (rule bit_word_eqI) (auto simp: bit_simps)
  have m: "mask 7 AND (128 :: byte) = 0"
    by (simp add: mask_eq_exp_minus_1)
  have "septet k s AND 128 = (septet k s AND mask 7) AND 128" by (simp only: x)
  also have "\<dots> = septet k s AND (mask 7 AND 128)" by (simp only: and.assoc)
  also have "\<dots> = 0" by (simp only: m and_zero_eq)
  finally show ?thesis .
qed

lemma septets_join:
  assumes "s < 2 ^ 28"
  shows "push_bit 7 (push_bit 7 (push_bit 7 (push_bit 7 0 OR ucast (septet 21 s))
           OR ucast (septet 14 s)) OR ucast (septet 7 s)) OR ucast (septet 0 s) = s"
    (is "?L = s")
proof (rule bit_word_eqI)
  fix n :: nat
  assume "n < LENGTH(64)"
  have hi: "bit s n \<Longrightarrow> n < 28" using upper_bits [OF assms] .
  consider "n < 7" | "7 \<le> n" "n < 14" | "14 \<le> n" "n < 21" | "21 \<le> n" "n < 28" | "28 \<le> n"
    by linarith
  then show "bit ?L n = bit s n"
  proof cases
    case 1 then show ?thesis by (simp add: septet_def bit_simps) next
    case 2 then show ?thesis by (auto simp: septet_def bit_simps) next
    case 3 then show ?thesis by (auto simp: septet_def bit_simps) next
    case 4 then show ?thesis by (auto simp: septet_def bit_simps) next
    case 5 with hi show ?thesis by (auto simp: septet_def bit_simps)
  qed
qed

lemma octets_join:
  assumes "s < 2 ^ 32"
  shows "push_bit 8 (push_bit 8 (push_bit 8 (push_bit 8 0 OR ucast (octet 24 s))
           OR ucast (octet 16 s)) OR ucast (octet 8 s)) OR ucast (octet 0 s) = s"
    (is "?L = s")
proof (rule bit_word_eqI)
  fix n :: nat
  assume "n < LENGTH(64)"
  have hi: "bit s n \<Longrightarrow> n < 32" using upper_bits [OF assms] .
  consider "n < 8" | "8 \<le> n" "n < 16" | "16 \<le> n" "n < 24" | "24 \<le> n" "n < 32" | "32 \<le> n"
    by linarith
  then show "bit ?L n = bit s n"
  proof cases
    case 1 then show ?thesis by (simp add: octet_def bit_simps) next
    case 2 then show ?thesis by (auto simp: octet_def bit_simps) next
    case 3 then show ?thesis by (auto simp: octet_def bit_simps) next
    case 4 then show ?thesis by (auto simp: octet_def bit_simps) next
    case 5 with hi show ?thesis by (auto simp: octet_def bit_simps)
  qed
qed

lemma parseSize_septets:
  assumes "s < 2 ^ 28"
  shows "parseSize [septet 21 s, septet 14 s, septet 7 s, septet 0 s] True = Inr s"
proof -
  have "parseSize [septet 21 s, septet 14 s, septet 7 s, septet 0 s] True =
        Inr (push_bit 7 (push_bit 7 (push_bit 7 (push_bit 7 0 OR ucast (septet 21 s))
           OR ucast (septet 14 s)) OR ucast (septet 7 s)) OR ucast (septet 0 s))"
    by (simp add: parseSize_def id3SizeLen_def synchSafeSizeBase_def septet_top)
  with septets_join [OF assms] show ?thesis by simp
qed

lemma parseSize_octets:
  assumes "s < 2 ^ 32"
  shows "parseSize [octet 24 s, octet 16 s, octet 8 s, octet 0 s] False = Inr s"
proof -
  have "parseSize [octet 24 s, octet 16 s, octet 8 s, octet 0 s] False =
        Inr (push_bit 8 (push_bit 8 (push_bit 8 (push_bit 8 0 OR ucast (octet 24 s))
           OR ucast (octet 16 s)) OR ucast (octet 8 s)) OR ucast (octet 0 s))"
    by (simp add: parseSize_def id3SizeLen_def synchUnsafeSizeBase_def)
  with octets_join [OF assms] show ?thesis by simp
qed

text \<open>
  C3. The size codec round-trips in both modes: a size below \<open>2^28\<close> written by the
  synch-safe writer and parsed with \<open>synchSafe = true\<close>, and a size below \<open>2^32\<close> written
  by the raw writer and parsed with \<open>synchSafe = false\<close>, comes back unchanged and without
  an error.
\<close>

theorem size_roundtrip:
  "(s < 2 ^ 28 \<longrightarrow>
      fst (writeBytesSize newBufferedWriter s True) = None \<and>
      parseSize (sink (snd (writeBytesSize newBufferedWriter s True))) True = Inr s) \<and>
   (s < 2 ^ 32 \<longrightarrow>
      fst (writeBytesSize newBufferedWriter s False) = None \<and>
      parseSize (sink (snd (writeBytesSize newBufferedWriter s False))) False = Inr s)"
proof (intro conjI impI)
  assume a: "s < 2 ^ 28"
  then have le: "\<not> s > synchSafeMaxSize"
    by (simp add: synchSafeMaxSize_def word_less_nat_alt word_le_nat_alt not_less)
  then show "fst (writeBytesSize newBufferedWriter s True) = None"
    by (simp add: writeBytesSize_def writeSynchSafeBytesSize_def)
  have e: "err newBufferedWriter = None" by (simp add: newBufferedWriter_def)
  from le show "parseSize (sink (snd (writeBytesSize newBufferedWriter s True))) True = Inr s"
    by (simp add: writeBytesSize_def writeSynchSafeBytesSize_def synchSafeLoop_sink
        newBufferedWriter_def parseSize_septets [OF a])
next
  assume a: "s < 2 ^ 32"
  then have le: "\<not> s > synchUnsafeMaxSize"
    by (simp add: synchUnsafeMaxSize_def word_less_nat_alt word_le_nat_alt not_less)
  then show "fst (writeBytesSize newBufferedWriter s False) = None"
    by (simp add: writeBytesSize_def writeSynchUnsafeBytesSize_def)
  have e: "err newBufferedWriter = None" by (simp add: newBufferedWriter_def)
  from le show "parseSize (sink (snd (writeBytesSize newBufferedWriter s False))) False = Inr s"
    by (simp add: writeBytesSize_def writeSynchUnsafeBytesSize_def synchUnsafeLoop_sink
        newBufferedWriter_def parseSize_octets [OF a])
qed

lemma writeBytesSize_safe_bytes:
  "\<not> s > synchSafeMaxSize \<Longrightarrow>
   sink (snd (writeBytesSize newBufferedWriter s True)) =
     [septet 21 s, septet 14 s, septet 7 s, septet 0 s]"
  by (simp add: writeBytesSize_def writeSynchSafeBytesSize_def synchSafeLoop_sink
      newBufferedWriter_def)

lemma writeBytesSize_raw_bytes:
  "\<not> s > synchUnsafeMaxSize \<Longrightarrow>
   sink (snd (writeBytesSize newBufferedWriter s False)) =
     [octet 24 s, octet 16 s, octet 8 s, octet 0 s]"
  by (simp add: writeBytesSize_def writeSynchUnsafeBytesSize_def synchUnsafeLoop_sink
      newBufferedWriter_def)

theorem size_roundtrip_witness:
  "(15351 :: uint) < 2 ^ 28 \<and>
   sink (snd (writeBytesSize newBufferedWriter 15351 True)) = [0, 0, 0x77, 0x77] \<and>
   parseSize (sink (snd (writeBytesSize newBufferedWriter 15351 True))) True = Inr 15351 \<and>
   (65535 :: uint) < 2 ^ 32 \<and>
   sink (snd (writeBytesSize newBufferedWriter 65535 False)) = [0, 0, 0xFF, 0xFF] \<and>
   parseSize (sink (snd (writeBytesSize newBufferedWriter 65535 False))) False = Inr 65535"
proof -
  have a: "sink (snd (writeBytesSize newBufferedWriter 15351 True)) = [0, 0, 0x77, 0x77]"
    using writeBytesSize_safe_bytes [of 15351]
    by (simp add: synchSafeMaxSize_def septet_def)
  have b: "sink (snd (writeBytesSize newBufferedWriter 65535 False)) = [0, 0, 0xFF, 0xFF]"
    using writeBytesSize_raw_bytes [of 65535]
    by (simp add: synchUnsafeMaxSize_def octet_def)
  from a b size_roundtrip [of 15351] size_roundtrip [of 65535] show ?thesis by simp
qed

subsection \<open>Reading the tag header\<close>

lemma init_empty:
  "frames (init tag rd sz v) = Map.empty \<and> sequences (init tag rd sz v) = Map.empty \<and>
   reader (init tag rd sz v) = rd \<and> originalSize (init tag rd sz v) = sz \<and>
   version (init tag rd sz v) = v \<and> Count (init tag rd sz v) = 0"
  by (simp add: init_def DeleteAllFrames_def setDefaultEncodingBasedOnVersion_def
      SetDefaultEncoding_def Count_def)

lemma parseHeader_short:
  assumes "0 < length r" and "length r < 10"
  shows "parseHeader r = (\<lparr>FramesSize = 0, Version = 0\<rparr>, Some ErrSmallHeaderSize, [])"
  using assms by (auto simp: parseHeader_def Read_def tagHeaderSize_def Let_def)

lemma parseHeader_eof:
  "parseHeader [] = (\<lparr>FramesSize = 0, Version = 0\<rparr>, Some EOF, [])"
  by (simp add: parseHeader_def Read_def tagHeaderSize_def Let_def)

lemma parseHeader_no_marker:
  assumes "10 \<le> length r" and "take 3 r \<noteq> bytesOf ''ID3''"
  shows "parseHeader r = (\<lparr>FramesSize = 0, Version = 0\<rparr>, Some ErrNoTag, drop 10 r)"
proof -
  from assms(1) have "r \<noteq> []" by auto
  moreover from assms(1) have "take 3 (take 10 r) = take 3 r" by simp
  ultimately show ?thesis using assms
    by (simp add: parseHeader_def Read_def tagHeaderSize_def Let_def isID3Tag_def
        id3Identifier_def)
qed

text \<open>
  C7 (amended). \<open>Tag.parse\<close> starts a fresh, empty tag (no frames, version 4, recorded
  size 0) and returns no error in two cases: the source supplies at least the 10 bytes
  of the header and they do not begin with the marker \<open>ID3\<close>, or the source is at its
  end and supplies no byte at all. A source that supplies between 1 and 9 bytes makes
  \<open>Tag.parse\<close> return an error that wraps \<open>ErrSmallHeaderSize\<close> and leaves the tag as it
  was, whatever those bytes are.
\<close>

theorem parse_no_tag:
  "(10 \<le> length r \<and> take 3 r \<noteq> bytesOf ''ID3'' \<longrightarrow>
      parse tag (Some r) opts = Return None (init tag (Some (drop 10 r)) 0 4)) \<and>
   parse tag (Some []) opts = Return None (init tag (Some []) 0 4) \<and>
   (0 < length r \<and> length r < 10 \<longrightarrow>
      parse tag (Some r) opts = Return (Some (ErrParsingTagHeader ErrSmallHeaderSize)) tag) \<and>
   frames (init tag rd 0 4) = Map.empty \<and> sequences (init tag rd 0 4) = Map.empty \<and>
   Count (init tag rd 0 4) = 0 \<and> version (init tag rd 0 4) = 4 \<and>
   originalSize (init tag rd 0 4) = 0"
  by (simp add: parse_def parseHeader_short parseHeader_eof parseHeader_no_marker init_empty)

text \<open>
  The claim as written fails on a source of three bytes: the header is too short, and
  \<open>Tag.parse\<close> reports it instead of starting a fresh tag.
\<close>

theorem parse_small_source_counterexample:
  "parse (NewEmptyTag :: unit Tag) (Some [0, 0, 0]) \<lparr>Parse = True, ParseFrames = []\<rparr> =
     Return (Some (ErrParsingTagHeader ErrSmallHeaderSize)) NewEmptyTag"
  by (simp add: parse_def parseHeader_def Read_def tagHeaderSize_def Let_def)

theorem parse_no_tag_witness:
  "10 \<le> length ([0, 0, 0, 0, 0, 0, 0, 0, 0, 0 :: byte]) \<and> take 3 ([0, 0, 0, 0, 0, 0, 0, 0, 0, 0 :: byte]) \<noteq> bytesOf ''ID3'' \<and>
   parse (NewEmptyTag :: unit Tag) (Some [0, 0, 0, 0, 0, 0, 0, 0, 0, 0]) \<lparr>Parse = True, ParseFrames = []\<rparr> =
     Return None (init NewEmptyTag (Some []) 0 4) \<and>
   0 < length (bytesOf ''ID3'') \<and> length (bytesOf ''ID3'') < 10 \<and>
   parse (NewEmptyTag :: unit Tag) (Some (bytesOf ''ID3'')) \<lparr>Parse = True, ParseFrames = []\<rparr> =
     Return (Some (ErrParsingTagHeader ErrSmallHeaderSize)) NewEmptyTag"
  using parse_no_tag [of "[0, 0, 0, 0, 0, 0, 0, 0, 0, 0]" "NewEmptyTag :: unit Tag" "\<lparr>Parse = True, ParseFrames = []\<rparr>"]
        parse_no_tag [of "bytesOf ''ID3''" "NewEmptyTag :: unit Tag" "\<lparr>Parse = True, ParseFrames = []\<rparr>"]
  by (simp add: bytesOf_def)

subsection \<open>Frame sizes and frame writers\<close>

lemma length_bytesOf [simp]: "length (bytesOf s) = length s"
  by (simp add: bytesOf_def)

lemma encodeWriteText_encoded:
  "err bw = None \<Longrightarrow>
   encodeWriteText bw src to =
     (case encoded src to of
        Inl e \<Rightarrow> (Some e, bw)
      | Inr bs \<Rightarrow> (None, bw\<lparr>sink := sink bw @ bs, written := written bw + length bs\<rparr>))"
  by (auto simp: encodeWriteText_def encoded_def WriteString_def WriteByte_def Let_def
      split: sum.splits)

lemma encodedSize_encoded:
  "encodedSize src to =
     (case encoded src to of Inl e \<Rightarrow> Inl (Panic e) | Inr bs \<Rightarrow> Inr (length bs))"
proof (cases "Equals to EncodingUTF8")
  case True
  then show ?thesis by (simp add: encodedSize_def encoded_def)
next
  case False
  have e: "err newBufferedWriter = None" by (simp add: newBufferedWriter_def)
  have w: "written newBufferedWriter = 0" by (simp add: newBufferedWriter_def)
  show ?thesis using False
    by (simp add: encodedSize_def encodeWriteText_encoded [OF e] Written_def w
        split: sum.splits)
qed

lemma EncodeAndWriteText_encoded:
  "EncodeAndWriteText bw src to =
     (if err bw \<noteq> None then bw
      else case encoded src to of
          Inl e \<Rightarrow> bw\<lparr>err := Some e\<rparr>
        | Inr bs \<Rightarrow> bw\<lparr>sink := sink bw @ bs, written := written bw + length bs\<rparr>)"
  by (auto simp: EncodeAndWriteText_def encodeWriteText_encoded split: sum.splits)

lemmas writer_ops = WriteByte_def WriteString_def Write_def Flush_def Written_def
  EncodeAndWriteText_encoded useBufferedWriter_def getBufWriter_def addE_def encodedSize_encoded

lemma TextFrame_buffered:
  assumes "TextFrame_WriteTo tf (Buffered b) = (n, None, w')"
  shows "TextFrame_Size tf = Inr n \<and> (\<exists>b'. w' = Buffered b' \<and> wrote b b' n)"
  using assms
  by (cases "encoded (TextFrame.Text tf) (TextFrame.Encoding tf)"; cases "err b")
     (auto simp: TextFrame_WriteTo_def TextFrame_Size_def writer_ops wrote_def Let_def
       split: if_splits)

lemma TextFrame_size_written:
  assumes "TextFrame_WriteTo tf w = (n, None, w')"
  shows "TextFrame_Size tf = Inr n \<and> (\<exists>bs. length bs = n \<and> accepted w' = accepted w @ bs)"
proof (cases w)
  case (Buffered b)
  with TextFrame_buffered [of tf b n w'] assms show ?thesis
    by (auto simp: wrote_def accepted_def)
next
  case (Plain out)
  with assms show ?thesis
    by (cases "encoded (TextFrame.Text tf) (TextFrame.Encoding tf)")
       (auto simp: TextFrame_WriteTo_def TextFrame_Size_def writer_ops Let_def accepted_def
         split: if_splits)
qed

lemma CommentFrame_size_written:
  assumes "CommentFrame_WriteTo cf w = (n, None, w')"
  shows "CommentFrame_Size cf = Inr n \<and> (\<exists>bs. length bs = n \<and> accepted w' = accepted w @ bs)"
  using assms
  by (cases w; cases "encoded (CommentFrame.Description cf) (CommentFrame.Encoding cf)";
      cases "encoded (CommentFrame.Text cf) (CommentFrame.Encoding cf)")
     (auto simp: CommentFrame_WriteTo_def CommentFrame_Size_def writer_ops Let_def accepted_def
       split: if_splits option.splits)

lemma PictureFrame_size_written:
  assumes "PictureFrame_WriteTo pf w = (n, None, w')"
  shows "PictureFrame_Size pf = Inr n \<and> (\<exists>bs. length bs = n \<and> accepted w' = accepted w @ bs)"
  using assms
  by (cases w; cases "encoded (PictureFrame.Description pf) (PictureFrame.Encoding pf)")
     (auto simp: PictureFrame_WriteTo_def PictureFrame_Size_def writer_ops Let_def accepted_def
       split: if_splits option.splits)

lemma PopularimeterFrame_size_written:
  assumes "PopularimeterFrame_WriteTo pf w = (n, None, w')"
  shows "PopularimeterFrame_Size pf = Inr n \<and>
         (\<exists>bs. length bs = n \<and> accepted w' = accepted w @ bs)"
  using assms
  by (cases w; cases "counterBytes pf")
     (auto simp: PopularimeterFrame_WriteTo_def PopularimeterFrame_Size_def writer_ops Let_def
       accepted_def split: if_splits option.splits)

lemma LinkFrame_size_written:
  assumes "LinkFrame_WriteTo lf w = (n, None, w')"
  shows "LinkFrame_Size lf = Inr n \<and> (\<exists>bs. length bs = n \<and> accepted w' = accepted w @ bs)"
  using assms
  by (cases w; cases "encoded (URL lf) (LinkFrame.Encoding lf)")
     (auto simp: LinkFrame_WriteTo_def LinkFrame_Size_def writer_ops Let_def accepted_def
       split: if_splits option.splits)

lemma UserDefinedTextFrame_size_written:
  assumes "UserDefinedTextFrame_WriteTo udtf w = (n, None, w')"
  shows "UserDefinedTextFrame_Size udtf = Inr n \<and>
         (\<exists>bs. length bs = n \<and> accepted w' = accepted w @ bs)"
  using assms
  by (cases w;
      cases "encoded (UserDefinedTextFrame.Description udtf) (UserDefinedTextFrame.Encoding udtf)";
      cases "encoded (Value udtf) (UserDefinedTextFrame.Encoding udtf)")
     (auto simp: UserDefinedTextFrame_WriteTo_def UserDefinedTextFrame_Size_def writer_ops
       Let_def accepted_def split: if_splits option.splits)

lemma UnsynchronisedLyricsFrame_size_written:
  assumes "UnsynchronisedLyricsFrame_WriteTo uslf w = (n, None, w')"
  shows "UnsynchronisedLyricsFrame_Size uslf = Inr n \<and>
         (\<exists>bs. length bs = n \<and> accepted w' = accepted w @ bs)"
  using assms
  by (cases w;
      cases "encoded (UnsynchronisedLyricsFrame.ContentDescriptor uslf)
               (UnsynchronisedLyricsFrame.Encoding uslf)";
      cases "encoded (Lyrics uslf) (UnsynchronisedLyricsFrame.Encoding uslf)")
     (auto simp: UnsynchronisedLyricsFrame_WriteTo_def UnsynchronisedLyricsFrame_Size_def
       writer_ops Let_def accepted_def split: if_splits option.splits)

lemma UnknownFrame_size_written:
  assumes "UnknownFrame_WriteTo uf w = (n, None, w')"
  shows "UnknownFrame_Size uf = Inr n \<and> (\<exists>bs. length bs = n \<and> accepted w' = accepted w @ bs)"
  using assms
  by (cases w)
     (auto simp: UnknownFrame_WriteTo_def UnknownFrame_Size_def ioWrite_def Write_def accepted_def
       split: if_splits)

lemma wrote_refl: "err bw = None \<Longrightarrow> wrote bw bw 0"
  by (simp add: wrote_def)

lemma wrote_trans: "wrote a b j \<Longrightarrow> wrote b c k \<Longrightarrow> wrote a c (j + k)"
  by (auto simp: wrote_def)

lemma wrote_step:
  "err bw = None \<Longrightarrow>
   wrote bw (bw\<lparr>sink := sink bw @ bs, written := written bw + length bs\<rparr>) (length bs)"
  by (simp add: wrote_def)

lemma useBufferedWriter_size:
  assumes u: "useBufferedWriter w f = (n, None, w')"
    and body: "\<And>b b'. f b = (None, b') \<Longrightarrow> err b' = None \<Longrightarrow> \<exists>k. S = Inr k \<and> wrote b b' k"
  shows "S = Inr n \<and> (\<exists>bs. length bs = n \<and> accepted w' = accepted w @ bs)"
proof (cases w)
  case (Buffered b)
  with u obtain b' where b': "f b = (None, b')" "err b' = None" "w' = Buffered b'"
    "n = written b' - written b"
    by (auto simp: useBufferedWriter_def Flush_def Written_def Let_def
        split: prod.splits option.splits if_splits)
  from body [OF b'(1,2)] obtain k where "S = Inr k" "wrote b b' k" by blast
  with b' Buffered show ?thesis by (auto simp: wrote_def accepted_def)
next
  case (Plain out)
  with u obtain b' where b': "f (getBufWriter out) = (None, b')" "err b' = None"
    "w' = Plain (sink b')" "n = written b'"
    by (auto simp: useBufferedWriter_def Flush_def Written_def
        split: prod.splits option.splits if_splits)
  from body [OF b'(1,2)] obtain k where "S = Inr k" "wrote (getBufWriter out) b' k" by blast
  with b' Plain show ?thesis by (auto simp: wrote_def accepted_def getBufWriter_def)
qed

lemma syltWriteLoop_size:
  "syltWriteLoop enc bw vs = (None, bw') \<Longrightarrow> err bw' = None \<Longrightarrow>
   \<exists>k. syltSizeLoop enc (Inr s0) vs = Inr (s0 + k) \<and> wrote bw bw' k"
proof (induction vs arbitrary: bw s0)
  case Nil
  then show ?case by (auto simp: wrote_def)
next
  case (Cons v vs)
  show ?case
  proof (cases "err bw")
    case (Some e)
    with Cons.prems show ?thesis by (simp add: writer_ops)
  next
    case None
    show ?thesis
    proof (cases "encoded (SynchronizedText.Text v) enc")
      case (Inl e)
      with None Cons.prems show ?thesis by (simp add: writer_ops)
    next
      case (Inr bs)
      let ?j = "length bs + length (TerminationBytes enc) + 4"
      define bw3 where "bw3 = snd (snd (Write (snd (snd (Write
        (EncodeAndWriteText bw (SynchronizedText.Text v) enc) (TerminationBytes enc))))
        (timestampToBigEndian v)))"
      from None Inr Cons.prems(1) have loop: "syltWriteLoop enc bw3 vs = (None, bw')"
        by (simp add: bw3_def writer_ops)
      from None Inr have w3: "wrote bw bw3 ?j"
        by (simp add: bw3_def writer_ops wrote_def timestampToBigEndian_def bigEndian32_def)
      from Cons.IH [OF loop Cons.prems(2), of "s0 + ?j"] obtain k where
        k: "syltSizeLoop enc (Inr (s0 + ?j)) vs = Inr (s0 + ?j + k)" "wrote bw3 bw' k"
        by blast
      from w3 k(2) have w: "wrote bw bw' (?j + k)" by (rule wrote_trans)
      from Inr have "syltSizeLoop enc (Inr s0) (v # vs) = syltSizeLoop enc (Inr (s0 + ?j)) vs"
        by (simp add: encodedSize_encoded addE_def add.assoc)
      with k(1) have "syltSizeLoop enc (Inr s0) (v # vs) = Inr (s0 + (?j + k))"
        by (simp add: add.assoc)
      with w show ?thesis by blast
    qed
  qed
qed

lemma SynchronisedLyricsFrame_size_written:
  assumes "SynchronisedLyricsFrame_WriteTo sylf w = (n, None, w')"
  shows "SynchronisedLyricsFrame_Size sylf = Inr n \<and>
         (\<exists>bs. length bs = n \<and> accepted w' = accepted w @ bs)"
proof -
  let ?enc = "SynchronisedLyricsFrame.Encoding sylf"
  let ?f = "\<lambda>bw.
        let bw = WriteByte bw (Key ?enc);
            bw = WriteString bw (SynchronisedLyricsFrame.Language sylf);
            bw = WriteByte bw (TimestampFormat sylf);
            bw = WriteByte bw (ContentType sylf);
            bw = EncodeAndWriteText bw (SynchronisedLyricsFrame.ContentDescriptor sylf) ?enc
        in case Write bw (TerminationBytes ?enc) of
             (n, Some e, bw) \<Rightarrow> (Some e, bw)
           | (n, None, bw) \<Rightarrow> syltWriteLoop ?enc bw (SynchronizedTexts sylf)"
  have body: "\<exists>k. SynchronisedLyricsFrame_Size sylf = Inr k \<and> wrote b b' k"
    if f: "?f b = (None, b')" and e': "err b' = None"
      and lang: "length (SynchronisedLyricsFrame.Language sylf) = 3" for b b'
  proof (cases "err b")
    case (Some e)
    with f show ?thesis by (simp add: writer_ops)
  next
    case None
    show ?thesis
    proof (cases "encoded (SynchronisedLyricsFrame.ContentDescriptor sylf) ?enc")
      case (Inl e)
      with None f show ?thesis by (simp add: writer_ops)
    next
      case (Inr bs)
      let ?pre = "[Key ?enc] @ bytesOf (SynchronisedLyricsFrame.Language sylf) @
                  [TimestampFormat sylf, ContentType sylf] @ bs @ TerminationBytes ?enc"
      define b1 where "b1 = snd (snd (Write (EncodeAndWriteText (WriteByte (WriteByte
        (WriteString (WriteByte b (Key ?enc)) (SynchronisedLyricsFrame.Language sylf))
        (TimestampFormat sylf)) (ContentType sylf))
        (SynchronisedLyricsFrame.ContentDescriptor sylf) ?enc) (TerminationBytes ?enc)))"
      from None Inr f have loop: "syltWriteLoop ?enc b1 (SynchronizedTexts sylf) = (None, b')"
        by (simp add: b1_def writer_ops)
      from None Inr have w1: "wrote b b1 (length ?pre)"
        by (simp add: b1_def writer_ops wrote_def)
      from syltWriteLoop_size [OF loop e', of 0] obtain k where
        k: "syltSizeLoop ?enc (Inr 0) (SynchronizedTexts sylf) = Inr k" "wrote b1 b' k"
        by auto
      from w1 k(2) have w: "wrote b b' (length ?pre + k)" by (rule wrote_trans)
      from Inr k(1) lang have "SynchronisedLyricsFrame_Size sylf = Inr (length ?pre + k)"
        by (simp add: SynchronisedLyricsFrame_Size_def encodedSize_encoded addE_def)
      with w show ?thesis by blast
    qed
  qed
  from assms have lang: "length (SynchronisedLyricsFrame.Language sylf) = 3"
    by (auto simp: SynchronisedLyricsFrame_WriteTo_def split: if_splits)
  with assms have u: "useBufferedWriter w ?f = (n, None, w')"
    by (simp add: SynchronisedLyricsFrame_WriteTo_def)
  show ?thesis
    by (rule useBufferedWriter_size [OF u]) (rule body [OF _ _ lang])
qed

lemma WriteBytesSize_synchSafe:
  assumes "err bw = None"
  shows "WriteBytesSize bw sz True =
         (if sz > synchSafeMaxSize then bw\<lparr>err := Some ErrSizeOverflow\<rparr>
          else bw\<lparr>sink := sink bw @ [septet 21 sz, septet 14 sz, septet 7 sz, septet 0 sz],
                  written := written bw + 4\<rparr>)"
  using assms
  by (simp add: WriteBytesSize_def writeBytesSize_def writeSynchSafeBytesSize_def
      synchSafeLoop_sink)

lemma writeFrameHeader_synchSafe:
  assumes "writeFrameHeader bw fid sz True = (None, bw')" and "length fid = 4"
  shows "wrote bw bw' 10"
proof (cases "err bw")
  case (Some e)
  with assms(1) show ?thesis
    by (simp add: writeFrameHeader_def WriteString_def WriteBytesSize_def Write_def)
next
  case None
  then have e: "err (WriteString bw fid) = None" by (simp add: WriteString_def)
  from assms None show ?thesis
    by (auto simp: writeFrameHeader_def WriteBytesSize_synchSafe WriteString_def Write_def
        wrote_def split: if_splits)
qed

lemma writeFrame_TextFrame:
  assumes "writeFrame TextFrame_Size TextFrame_WriteTo bw fid t True = (None, bw')"
    and "length fid = 4"
  shows "\<exists>sz. TextFrame_Size t = Inr sz \<and> wrote bw bw' (frameHeaderSize + sz)"
proof (cases "TextFrame_Size t")
  case (Inl e)
  with assms(1) show ?thesis by (simp add: writeFrame_def)
next
  case (Inr sz)
  with assms(1) obtain bwh n w' where
    h: "writeFrameHeader bw fid (truncateIntToUint sz) True = (None, bwh)" and
    t: "TextFrame_WriteTo t (Buffered bwh) = (n, None, w')" and
    w': "(case w' of Buffered b \<Rightarrow> b | Plain out \<Rightarrow> bwh) = bw'"
    by (auto simp: writeFrame_def split: prod.splits option.splits writer.splits)
  from writeFrameHeader_synchSafe [OF h assms(2)] have wh: "wrote bw bwh 10" .
  from TextFrame_buffered [OF t] obtain b' where
    b': "TextFrame_Size t = Inr n" "w' = Buffered b'" "wrote bwh b' n" by blast
  from b'(2) w' have "b' = bw'" by simp
  with wh b'(3) have "wrote bw bw' (10 + n)" by (auto intro: wrote_trans)
  with b'(1) Inr show ?thesis by (simp add: frameHeaderSize_def)
qed

lemma binaryWrite_wrote:
  assumes "binaryWrite bw x = (None, bw')"
  shows "wrote bw bw' 4"
  using assms
  by (cases "err bw") (auto simp: binaryWrite_def Write_def bigEndian32_def wrote_def)

lemma optional_subframe:
  assumes "(case fo of None \<Rightarrow> (None, bw)
            | Some t \<Rightarrow> writeFrame TextFrame_Size TextFrame_WriteTo bw fid t True) = (None, bw')"
    and "length fid = 4" and "err bw' = None"
  shows "\<exists>k. (case fo of None \<Rightarrow> Inr 0
              | Some t \<Rightarrow> addE (Inr frameHeaderSize) (TextFrame_Size t)) = Inr k \<and>
             wrote bw bw' k"
proof (cases fo)
  case None
  with assms show ?thesis by (simp add: wrote_def)
next
  case (Some t)
  with assms(1) have "writeFrame TextFrame_Size TextFrame_WriteTo bw fid t True = (None, bw')"
    by simp
  from writeFrame_TextFrame [OF this assms(2)] Some show ?thesis
    by (auto simp: addE_def)
qed

lemma ChapterFrame_size_written:
  assumes "ChapterFrame_WriteTo cf w = (n, None, w')"
  shows "ChapterFrame_Size cf = Inr n \<and> (\<exists>bs. length bs = n \<and> accepted w' = accepted w @ bs)"
proof (rule useBufferedWriter_size [OF assms [unfolded ChapterFrame_WriteTo_def]])
  fix b b' :: bufferedWriter
  assume f: "(let bw = EncodeAndWriteText b (ElementID cf) EncodingISO;
           bw = WriteByte bw 0
       in case binaryWrite bw (truncateInt64ToInt32 (quot (StartTime cf) nanosInMillis)) of
         (Some e, bw) \<Rightarrow> (Some e, bw)
       | (None, bw) \<Rightarrow>
       (case binaryWrite bw (truncateInt64ToInt32 (quot (EndTime cf) nanosInMillis)) of
         (Some e, bw) \<Rightarrow> (Some e, bw)
       | (None, bw) \<Rightarrow>
       (case binaryWrite bw (StartOffset cf) of
         (Some e, bw) \<Rightarrow> (Some e, bw)
       | (None, bw) \<Rightarrow>
       (case binaryWrite bw (EndOffset cf) of
         (Some e, bw) \<Rightarrow> (Some e, bw)
       | (None, bw) \<Rightarrow>
       (case (case Title cf of
                None \<Rightarrow> (None, bw)
              | Some t \<Rightarrow> writeFrame TextFrame_Size TextFrame_WriteTo bw TitleFrameID t True) of
         (Some e, bw) \<Rightarrow> (Some e, bw)
       | (None, bw) \<Rightarrow>
       (case (case ChapterFrame.Description cf of
                None \<Rightarrow> (None, bw)
              | Some d \<Rightarrow>
                  writeFrame TextFrame_Size TextFrame_WriteTo bw SubtitleRefinementFrameID d True) of
         (Some e, bw) \<Rightarrow> (Some e, bw)
       | (None, bw) \<Rightarrow> (None, bw))))))) = (None, b')"
  assume e': "err b' = None"
  define b0 where "b0 = WriteByte (EncodeAndWriteText b (ElementID cf) EncodingISO) 0"
  from f obtain b1 b2 b3 b4 b5 where
    s1: "binaryWrite b0 (truncateInt64ToInt32 (quot (StartTime cf) nanosInMillis)) = (None, b1)" and
    s2: "binaryWrite b1 (truncateInt64ToInt32 (quot (EndTime cf) nanosInMillis)) = (None, b2)" and
    s3: "binaryWrite b2 (StartOffset cf) = (None, b3)" and
    s4: "binaryWrite b3 (EndOffset cf) = (None, b4)" and
    s5: "(case Title cf of None \<Rightarrow> (None, b4)
          | Some t \<Rightarrow> writeFrame TextFrame_Size TextFrame_WriteTo b4 TitleFrameID t True) = (None, b5)" and
    s6: "(case ChapterFrame.Description cf of None \<Rightarrow> (None, b5)
          | Some d \<Rightarrow> writeFrame TextFrame_Size TextFrame_WriteTo b5 SubtitleRefinementFrameID d True)
           = (None, b')"
    by (auto simp: b0_def Let_def split: prod.splits option.splits)
  from optional_subframe [OF s6 _ e'] obtain k6 where
    k6: "(case ChapterFrame.Description cf of None \<Rightarrow> Inr 0
          | Some t \<Rightarrow> addE (Inr frameHeaderSize) (TextFrame_Size t)) = Inr k6"
        "wrote b5 b' k6"
    by (auto simp: SubtitleRefinementFrameID_def)
  then have e5: "err b5 = None" by (simp add: wrote_def)
  from optional_subframe [OF s5 _ e5] obtain k5 where
    k5: "(case Title cf of None \<Rightarrow> Inr 0
          | Some t \<Rightarrow> addE (Inr frameHeaderSize) (TextFrame_Size t)) = Inr k5"
        "wrote b4 b5 k5"
    by (auto simp: TitleFrameID_def)
  note w1 = binaryWrite_wrote [OF s1] and w2 = binaryWrite_wrote [OF s2]
    and w3 = binaryWrite_wrote [OF s3] and w4 = binaryWrite_wrote [OF s4]
  from w1 have e0: "err b0 = None" by (simp add: wrote_def)
  then obtain bs where
    bs: "encoded (ElementID cf) EncodingISO = Inr bs" and w0: "wrote b b0 (length bs + 1)"
    by (cases "err b"; cases "encoded (ElementID cf) EncodingISO")
       (auto simp: b0_def writer_ops wrote_def)
  from w0 w1 w2 w3 w4 k5(2) k6(2)
  have w: "wrote b b' (length bs + 1 + 4 + 4 + 4 + 4 + k5 + k6)"
    by (blast intro: wrote_trans)
  from bs k5(1) k6(1)
  have "ChapterFrame_Size cf = Inr (length bs + 1 + 4 + 4 + 4 + 4 + k5 + k6)"
    by (auto simp: ChapterFrame_Size_def encodedSize_encoded addE_def Let_def
        split: option.splits sum.splits)
  with w show "\<exists>k. ChapterFrame_Size cf = Inr k \<and> wrote b b' k" by blast
qed

lemmas eval_defs = encodedSize_def encodeWriteText_def Equals_def EncodingISO_def EncodingUTF16_def
  EncodingUTF8_def resolveXEncoding_def xEncode_def natsOf_def ofNats_def WriteString_def
  WriteByte_def Write_def Flush_def Written_def newBufferedWriter_def bytesOf_def HasSuffix_def
  useBufferedWriter_def getBufWriter_def addE_def Let_def RuneError_def

text \<open>
  C2 (what the code does). \<open>UFIDFrame.Size\<close> counts the owner identifier as encoded in
  ISO 8859-1, \<open>UFIDFrame.WriteTo\<close> writes it as it is: for an owner that is the one letter U+00E9 (the bytes
  \<open>C3 A9\<close> in UTF-8) and an empty identifier \<open>Size\<close> is 2 and a successful \<open>WriteTo\<close>
  writes 3 bytes. For the ten other frame variants the lemmas above prove that a
  successful \<open>WriteTo\<close> writes exactly \<open>Size\<close> bytes.
\<close>

theorem UFIDFrame_size_mismatch:
  "UFIDFrame_Size \<lparr>OwnerIdentifier = [CHR 0xC3, CHR 0xA9], Identifier = []\<rparr> = Inr 2 \<and>
   UFIDFrame_WriteTo \<lparr>OwnerIdentifier = [CHR 0xC3, CHR 0xA9], Identifier = []\<rparr> (Plain []) =
     (3, None, Plain [0xC3, 0xA9, 0])"
  by (simp add: UFIDFrame_Size_def UFIDFrame_WriteTo_def eval_defs)

subsection \<open>UTF-16 text\<close>

text \<open>
  C6 (amended). Text written under UTF-16 with BOM begins with the byte-order mark
  \<open>FE FF\<close>; it is the library's encoding of the text followed by a single zero byte when
  that encoding does not already end in a zero byte, so the output always ends in a
  zero byte (not necessarily in a pair of them).
\<close>

theorem encodeWriteText_UTF16:
  "fst (encodeWriteText newBufferedWriter src EncodingUTF16) = None \<and>
   take 2 (sink (snd (encodeWriteText newBufferedWriter src EncodingUTF16))) = [0xFE, 0xFF] \<and>
   (\<exists>encoded. xEncode xEncodingUTF16BEBOM src = Inr encoded \<and>
      sink (snd (encodeWriteText newBufferedWriter src EncodingUTF16)) =
        bytesOf encoded @ (if HasSuffix (bytesOf encoded) [0] then [] else [0])) \<and>
   HasSuffix (sink (snd (encodeWriteText newBufferedWriter src EncodingUTF16))) [0]"
  by (simp add: encodeWriteText_def Equals_def EncodingUTF16_def EncodingUTF8_def
      resolveXEncoding_def xEncode_def ofNats_def WriteString_def WriteByte_def
      newBufferedWriter_def bytesOf_def HasSuffix_def Let_def)

text \<open>
  The claim as written fails for the text \<open>"A"\<close>: its encoding \<open>FE FF 00 41\<close> does not end
  in a pair of zero bytes, and the output \<open>FE FF 00 41 00\<close> does not either.
\<close>

theorem encodeWriteText_UTF16_counterexample:
  "xEncode xEncodingUTF16BEBOM ''A'' = Inr (stringOf [0xFE, 0xFF, 0x00, 0x41]) \<and>
   \<not> HasSuffix [0xFE, 0xFF, 0x00, 0x41] [0, 0] \<and>
   sink (snd (encodeWriteText newBufferedWriter ''A'' EncodingUTF16)) = [0xFE, 0xFF, 0x00, 0x41, 0x00] \<and>
   \<not> HasSuffix (sink (snd (encodeWriteText newBufferedWriter ''A'' EncodingUTF16))) [0, 0]"
  by (simp add: eval_defs stringOf_def)

end
